theory Spec2Isabelle
  imports Complex_Main
begin

section \<open>Python values\<close>

text \<open>
  A Python \<open>str\<close> is a sequence of Unicode code points, so it is modelled as a list of
  naturals: \<open>len\<close> is \<open>length\<close>, equality and \<open>in\<close> on lists of strings are equality
  and list membership. ASCII literals are written through \<open>str\<close>; literals that hold
  Cyrillic text are given by their code points.

  Python floats are modelled as exact reals: the smoothing arithmetic of the Observer
  and the thresholds of the Coordinator and the Reporter are read as arithmetic on
  \<open>real\<close>.
\<close>

type_synonym pystr = "nat list"

definition str :: "string \<Rightarrow> pystr" where
  "str s = map of_char s"

text \<open>
  The values \<open>json.loads\<close> produces, which are also the values of the dictionaries the
  agents build by hand. \<open>JNum\<close> stands for both \<open>int\<close> and \<open>float\<close>; \<open>JNull\<close> is
  \<open>None\<close>.
\<close>

datatype json =
    JNull
  | JBool bool
  | JNum real
  | JStr pystr
  | JList "json list"
  | JObj "(pystr \<times> json) list"

type_synonym pydict = "(pystr \<times> json) list"

datatype pyerror = KeyError | TypeError | AttributeError | NameError | IndexError

text \<open>Truth value of a Python object in a condition (\<open>if v\<close>, \<open>a and b\<close>, \<open>not v\<close>).\<close>

fun truthy :: "json \<Rightarrow> bool" where
  "truthy JNull = False"
| "truthy (JBool b) = b"
| "truthy (JNum x) = (x \<noteq> 0)"
| "truthy (JStr s) = (s \<noteq> [])"
| "truthy (JList l) = (l \<noteq> [])"
| "truthy (JObj d) = (d \<noteq> [])"

text \<open>\<open>d[k]\<close> raises \<open>KeyError\<close> on a missing key; \<open>d.get(k, default)\<close> does not.\<close>

definition subscript :: "pydict \<Rightarrow> pystr \<Rightarrow> pyerror + json" where
  "subscript d k = (case map_of d k of None \<Rightarrow> Inl KeyError | Some v \<Rightarrow> Inr v)"

definition dict_get :: "pydict \<Rightarrow> pystr \<Rightarrow> json \<Rightarrow> json" where
  "dict_get d k dflt = (case map_of d k of None \<Rightarrow> dflt | Some v \<Rightarrow> v)"

text \<open>\<open>d[k] = v\<close>: an existing key keeps its place, a new key goes to the end.\<close>

fun dict_set :: "pydict \<Rightarrow> pystr \<Rightarrow> json \<Rightarrow> pydict" where
  "dict_set [] k v = [(k, v)]"
| "dict_set ((k', v') # d) k v = (if k' = k then (k, v) # d else (k', v') # dict_set d k v)"

text \<open>
  The left operand of \<open>v * 0.3\<close>: numbers and booleans multiply with a float, every
  other JSON value raises \<open>TypeError\<close>.
\<close>

fun float_operand :: "json \<Rightarrow> pyerror + real" where
  "float_operand (JNum x) = Inr x"
| "float_operand (JBool b) = Inr (if b then 1 else 0)"
| "float_operand _ = Inl TypeError"

text \<open>\<open>v[:n]\<close>: strings and lists are sliced, every other JSON value raises.\<close>

fun py_slice :: "nat \<Rightarrow> json \<Rightarrow> pyerror + json" where
  "py_slice n (JStr s) = Inr (JStr (take n s))"
| "py_slice n (JList l) = Inr (JList (take n l))"
| "py_slice n _ = Inl TypeError"

section \<open>core/state.py: Assessment\<close>

record Assessment =
  technical_score :: real
  communication_score :: real
  confidence_score :: real
  topics_covered :: "pystr list"
  confirmed_skills :: "pystr list"
  knowledge_gaps :: pydict
  soft_skills_notes :: "pystr list"

text \<open>\<open>Assessment()\<close>: every field at its declared default.\<close>

definition Assessment_default :: Assessment where
  "Assessment_default =
     \<lparr>technical_score = 0, communication_score = 0, confidence_score = 0,
      topics_covered = [], confirmed_skills = [], knowledge_gaps = [],
      soft_skills_notes = []\<rparr>"

section \<open>agents/observer.py: the assessment update\<close>

text \<open>The three string literals of \<open>_update_assessment\<close> that hold Cyrillic text.\<close>

definition gap_topic :: pystr where
  \<comment> \<open>the knowledge-gap key, Russian for "current topic"\<close>
  "gap_topic = [1090, 1077, 1082, 1091, 1097, 1072, 1103, 32, 1090, 1077, 1084, 1072]"

definition note_evasive :: pystr where
  \<comment> \<open>Russian for "The candidate was evasive in the answer"\<close>
  "note_evasive =
     [1050, 1072, 1085, 1076, 1080, 1076, 1072, 1090, 32, 1073, 1099, 1083, 32, 1091,
      1082, 1083, 1086, 1085, 1095, 1080, 1074, 32, 1074, 32, 1086, 1090, 1074, 1077,
      1090, 1077]"

definition note_deep :: pystr where
  \<comment> \<open>Russian for "Showed a deep understanding of the topic"\<close>
  "note_deep =
     [1055, 1086, 1082, 1072, 1079, 1072, 1083, 32, 1075, 1083, 1091, 1073, 1086, 1082,
      1086, 1077, 32, 1087, 1086, 1085, 1080, 1084, 1072, 1085, 1080, 1077, 32, 1090,
      1077, 1084, 1099]"

text \<open>\<open>analysis[k] * 0.3\<close> evaluates the subscript, then the product.\<close>

definition score_of :: "pydict \<Rightarrow> pystr \<Rightarrow> pyerror + real" where
  "score_of analysis k =
     (case subscript analysis k of Inl e \<Rightarrow> Inl e | Inr v \<Rightarrow> float_operand v)"

text \<open>
  Lines 251-254 of \<open>_update_assessment\<close>: the knowledge-gap entry. The result is the
  error raised, or the object after the statement.
\<close>

definition update_gaps :: "Assessment \<Rightarrow> pydict \<Rightarrow> pyerror + Assessment" where
  "update_gaps a analysis =
     (case subscript analysis (str ''has_errors'') of
        Inl e \<Rightarrow> Inl e
      | Inr h \<Rightarrow>
          if truthy h \<and> truthy (dict_get analysis (str ''suggested_correction'') JNull)
          then (case subscript analysis (str ''suggested_correction'') of
                  Inl e \<Rightarrow> Inl e
                | Inr v \<Rightarrow>
                    (case py_slice 200 v of
                       Inl e \<Rightarrow> Inl e
                     | Inr w \<Rightarrow> Inr (a\<lparr>knowledge_gaps := dict_set (knowledge_gaps a) gap_topic w\<rparr>)))
          else Inr a)"

text \<open>
  \<open>ObserverAgent._update_assessment\<close>. The method assigns to the attributes of the
  \<open>Assessment\<close> object it is given, one statement after the other, and returns that same
  object. The model therefore returns the contents of the object when the call ends,
  together with the exception that ended it, if one did: an exception raised by a later
  statement leaves the assignments of the earlier statements in the object. The
  \<open>verification\<close> argument is not used by the body.
\<close>

definition update_assessment :: "Assessment \<Rightarrow> pydict \<Rightarrow> pyerror option \<times> Assessment" where
  "update_assessment a0 analysis =
     (case score_of analysis (str ''technical_score'') of
        Inl e \<Rightarrow> (Some e, a0)
      | Inr t \<Rightarrow>
     let a1 = a0\<lparr>technical_score := technical_score a0 * 0.7 + t * 0.3\<rparr> in
     (case score_of analysis (str ''communication_score'') of
        Inl e \<Rightarrow> (Some e, a1)
      | Inr c \<Rightarrow>
     let a2 = a1\<lparr>communication_score := communication_score a1 * 0.7 + c * 0.3\<rparr> in
     (case score_of analysis (str ''confidence_score'') of
        Inl e \<Rightarrow> (Some e, a2)
      | Inr f \<Rightarrow>
     let a3 = a2\<lparr>confidence_score := confidence_score a2 * 0.7 + f * 0.3\<rparr> in
     (case update_gaps a3 analysis of
        Inl e \<Rightarrow> (Some e, a3)
      | Inr a4 \<Rightarrow>
     (case subscript analysis (str ''is_evasive'') of
        Inl e \<Rightarrow> (Some e, a4)
      | Inr ev \<Rightarrow>
     let a5 = (if truthy ev
               then a4\<lparr>soft_skills_notes := soft_skills_notes a4 @ [note_evasive]\<rparr>
               else a4) in
     (case subscript analysis (str ''depth_of_knowledge'') of
        Inl e \<Rightarrow> (Some e, a5)
      | Inr d \<Rightarrow>
     (None, if d = JStr (str ''deep'')
            then a5\<lparr>soft_skills_notes := soft_skills_notes a5 @ [note_deep]\<rparr>
            else a5)))))))"

text \<open>
  The Assessment object after the update has been applied for each evaluation of a
  sequence, in order.
\<close>

fun apply_updates :: "Assessment \<Rightarrow> pydict list \<Rightarrow> Assessment" where
  "apply_updates a [] = a"
| "apply_updates a (ev # evs) = apply_updates (snd (update_assessment a ev)) evs"

text \<open>An evaluation whose score stored under \<open>k\<close> is a number in \<open>[0, 10]\<close>.\<close>

definition score_in_range :: "pydict \<Rightarrow> pystr \<Rightarrow> bool" where
  "score_in_range analysis k =
     (case score_of analysis k of Inl e \<Rightarrow> False | Inr x \<Rightarrow> 0 \<le> x \<and> x \<le> 10)"

definition evaluation_in_range :: "pydict \<Rightarrow> bool" where
  "evaluation_in_range analysis \<longleftrightarrow>
     score_in_range analysis (str ''technical_score'') \<and>
     score_in_range analysis (str ''communication_score'') \<and>
     score_in_range analysis (str ''confidence_score'')"

definition scores_in_range :: "Assessment \<Rightarrow> bool" where
  "scores_in_range a \<longleftrightarrow>
     0 \<le> technical_score a \<and> technical_score a \<le> 10 \<and>
     0 \<le> communication_score a \<and> communication_score a \<le> 10 \<and>
     0 \<le> confidence_score a \<and> confidence_score a \<le> 10"

text \<open>
  The evaluation of the specification's end-to-end scenario: technical 8,
  communication 7, no errors, not evasive.
\<close>

definition scenario_evaluation :: pydict where
  "scenario_evaluation =
     [(str ''technical_score'', JNum 8),
      (str ''completeness_score'', JNum 8),
      (str ''confidence_score'', JNum 7),
      (str ''communication_score'', JNum 7),
      (str ''has_errors'', JBool False),
      (str ''errors_list'', JList []),
      (str ''is_evasive'', JBool False),
      (str ''depth_of_knowledge'', JStr (str ''adequate'')),
      (str ''recommendation_for_next_question'', JStr []),
      (str ''suggested_correction'', JStr [])]"


section \<open>Built-in string functions and the JSON parser\<close>

text \<open>
  The code calls \<open>str.lower\<close>, \<open>str.strip\<close> and \<open>str.split\<close> of the Python runtime,
  renders values inside f-strings, and parses text with \<open>json.loads\<close>. These belong to
  the runtime, not to the repository, so the embedding takes them as parameters:
  \<open>json_loads\<close> returns \<open>None\<close> where \<open>json.loads\<close> raises \<open>JSONDecodeError\<close>, and the
  objects it returns list every key once.
\<close>

record builtins =
  py_lower :: "pystr \<Rightarrow> pystr"
  py_strip :: "pystr \<Rightarrow> pystr"
  py_split :: "pystr \<Rightarrow> pystr list"
  py_format :: "json \<Rightarrow> pystr"
  json_loads :: "pystr \<Rightarrow> json option"

text \<open>
  One instance, used to evaluate the model on concrete inputs. It lower-cases the
  Basic Latin and the Cyrillic capital letters and treats the ASCII white space
  characters as white space, which is what the runtime does on the strings of the
  examples below; it renders a string as itself and parses nothing.
\<close>

definition lower_cp :: "nat \<Rightarrow> nat" where
  "lower_cp c =
     (if 65 \<le> c \<and> c \<le> 90 then c + 32
      else if 1040 \<le> c \<and> c \<le> 1071 then c + 32
      else if 1024 \<le> c \<and> c \<le> 1039 then c + 80
      else c)"

definition is_space :: "nat \<Rightarrow> bool" where
  "is_space c \<longleftrightarrow> c = 32 \<or> (9 \<le> c \<and> c \<le> 13)"

fun words_from :: "pystr \<Rightarrow> pystr \<Rightarrow> pystr list" where
  "words_from w [] = (if w = [] then [] else [w])"
| "words_from w (c # cs) =
     (if is_space c then (if w = [] then words_from [] cs else w # words_from [] cs)
      else words_from (w @ [c]) cs)"

definition py0 :: builtins where
  "py0 =
     \<lparr>py_lower = map lower_cp,
      py_strip = (\<lambda>s. rev (dropWhile is_space (rev (dropWhile is_space s)))),
      py_split = words_from [],
      py_format = (\<lambda>v. case v of JStr s \<Rightarrow> s | _ \<Rightarrow> []),
      json_loads = (\<lambda>s. None)\<rparr>"

section \<open>config/settings.py\<close>

text \<open>The settings the modelled code reads; the defaults are those of the source.\<close>

record settings =
  MAX_TURNS :: int
  DEFAULT_DIFFICULTY :: int
  RAG_ENABLED :: bool

definition default_settings :: settings where
  "default_settings = \<lparr>MAX_TURNS = 10, DEFAULT_DIFFICULTY = 2, RAG_ENABLED = True\<rparr>"

section \<open>core/state.py and core/logger.py\<close>

record CandidateInfo =
  name :: pystr
  position :: pystr
  grade :: pystr
  experience_years :: real
  technologies :: "pystr list"

text \<open>A message; its timestamp and metadata are never read by the modelled code.\<close>

record Message =
  role :: pystr
  content :: pystr

record Turn =
  turn_id :: int
  agent_visible_message :: pystr
  user_message :: pystr
  internal_thoughts :: pystr

text \<open>The log dictionary, without its clock readings (\<open>start_time\<close>, \<open>end_time\<close>).\<close>

record LogData =
  participant_name :: pystr
  turns :: "Turn list"
  final_feedback :: pystr

text \<open>
  \<open>InterviewState\<close>. \<open>InterviewWorkflow.run\<close> builds the state with every key of the
  typed dictionary, so a key lookup \<open>state.get(k, default)\<close> is the field \<open>k\<close>. The fields
  that receive values taken from a parsed reply of the reasoning service
  (\<open>current_topic\<close>, \<open>observer_recommendation\<close>, \<open>coordinator_instruction\<close>) hold JSON
  values, \<open>JNull\<close> for \<open>None\<close>. Two nodes also write the keys \<open>last_question\<close> and
  \<open>last_answer\<close>, which the typed dictionary does not declare and nothing reads; they
  are left out.
\<close>

record InterviewState =
  candidate_info :: CandidateInfo
  messages :: "Message list"
  internal_monologue :: "pystr list"
  current_topic :: json
  difficulty_level :: int
  assessment :: Assessment
  questions_asked :: "pystr list"
  observer_recommendation :: json
  need_feedback :: bool
  interview_complete :: bool
  current_agent :: pystr
  current_question :: "pystr option"
  current_answer :: "pystr option"
  coordinator_instruction :: json
  log_data :: LogData
  current_turn_thoughts :: "pystr list"
  scenario_number :: int

definition init_log_data :: "CandidateInfo \<Rightarrow> LogData" where
  "init_log_data c = \<lparr>participant_name = name c, turns = [], final_feedback = []\<rparr>"

definition add_turn :: "LogData \<Rightarrow> pystr \<Rightarrow> pystr \<Rightarrow> pystr \<Rightarrow> LogData" where
  "add_turn ld visible user thoughts =
     (let turn = \<lparr>turn_id = int (length (turns ld)) + 1,
                  agent_visible_message = visible,
                  user_message = user,
                  internal_thoughts = thoughts\<rparr>
      in ld\<lparr>turns := turns ld @ [turn]\<rparr>)"

text \<open>The object \<open>save_to_file\<close> writes: the \<open>output_data\<close> dictionary.\<close>

definition output_data :: "LogData \<Rightarrow> pystr \<times> Turn list \<times> pystr" where
  "output_data ld = (participant_name ld, turns ld, final_feedback ld)"

text \<open>The log after a sequence of completed turns, each appended by \<open>add_turn\<close>.\<close>

fun add_turns :: "LogData \<Rightarrow> (pystr \<times> pystr \<times> pystr) list \<Rightarrow> LogData" where
  "add_turns ld [] = ld"
| "add_turns ld ((q, a, t) # rest) = add_turns (add_turn ld q a t) rest"

text \<open>The initial state of \<open>InterviewWorkflow.run\<close>.\<close>

definition initial_state :: "settings \<Rightarrow> CandidateInfo \<Rightarrow> int \<Rightarrow> InterviewState" where
  "initial_state cfg c n =
     \<lparr>candidate_info = c,
      messages = [],
      internal_monologue = [],
      current_topic = JStr [],
      difficulty_level = DEFAULT_DIFFICULTY cfg,
      assessment = Assessment_default,
      questions_asked = [],
      observer_recommendation = JNull,
      need_feedback = False,
      interview_complete = False,
      current_agent = str ''coordinator'',
      current_question = None,
      current_answer = None,
      coordinator_instruction = JNull,
      log_data = init_log_data c,
      current_turn_thoughts = [],
      scenario_number = n\<rparr>"

text \<open>The candidate of the specification's end-to-end scenario.\<close>

definition scenario_candidate :: CandidateInfo where
  "scenario_candidate =
     \<lparr>name = str ''Candidate'', position = str ''Python Developer'', grade = str ''Middle'',
      experience_years = 2, technologies = [str ''Python'']\<rparr>"


section \<open>agents/coordinator.py\<close>

text \<open>
  What a call of the reasoning service gives back: an exception, or the text of the
  reply.
\<close>

datatype llm_reply = LLMRaised | LLMContent pystr

definition end_interview :: pystr where
  "end_interview = str ''end_interview''"

definition continue :: pystr where
  "continue = str ''continue''"

definition change_topic :: pystr where
  "change_topic = str ''change_topic''"

definition reason_limit :: pystr where
  \<comment> \<open>Russian for "The question limit has been reached"\<close>
  "reason_limit =
     [1044, 1086, 1089, 1090, 1080, 1075, 1085, 1091, 1090, 32, 1083, 1080, 1084, 1080,
      1090, 32, 1074, 1086, 1087, 1088, 1086, 1089, 1086, 1074]"

definition reason_high_level :: pystr where
  \<comment> \<open>Russian for "The candidate shows a high level"\<close>
  "reason_high_level =
     [1050, 1072, 1085, 1076, 1080, 1076, 1072, 1090, 32, 1076, 1077, 1084, 1086, 1085,
      1089, 1090, 1088, 1080, 1088, 1091, 1077, 1090, 32, 1074, 1099, 1089, 1086, 1082,
      1080, 1081, 32, 1091, 1088, 1086, 1074, 1077, 1085, 1100]"

definition reason_fallback :: pystr where
  \<comment> \<open>Russian for "We continue the interview (fallback)"\<close>
  "reason_fallback =
     [1055, 1088, 1086, 1076, 1086, 1083, 1078, 1072, 1077, 1084, 32, 1080, 1085, 1090,
      1077, 1088, 1074, 1100, 1102, 32, 40, 102, 97, 108, 108, 98, 97, 99, 107, 41]"

definition reason_default :: pystr where
  \<comment> \<open>Russian for "We continue the interview"\<close>
  "reason_default =
     [1055, 1088, 1086, 1076, 1086, 1083, 1078, 1072, 1077, 1084, 32, 1080, 1085, 1090,
      1077, 1088, 1074, 1100, 1102]"

definition ask_next_question :: pystr where
  \<comment> \<open>Russian for "Ask the next question"\<close>
  "ask_next_question =
     [1047, 1072, 1076, 1072, 1081, 32, 1089, 1083, 1077, 1076, 1091, 1102, 1097, 1080,
      1081, 32, 1074, 1086, 1087, 1088, 1086, 1089]"

text \<open>
  \<open>obj.get(k, default)\<close> where \<open>obj\<close> is an instance of the pydantic class \<open>Assessment\<close>.
  The class (core/state.py) declares seven fields and no method, and pydantic's
  \<open>BaseModel\<close> has no attribute \<open>get\<close>, so looking the attribute up raises
  \<open>AttributeError\<close> before anything is called.
\<close>

definition model_get :: "Assessment \<Rightarrow> pystr \<Rightarrow> json \<Rightarrow> pyerror + json" where
  "model_get obj k dflt = Inl AttributeError"

text \<open>\<open>v > 7\<close> for a JSON value \<open>v\<close>.\<close>

fun greater_than :: "json \<Rightarrow> real \<Rightarrow> pyerror + bool" where
  "greater_than (JNum x) y = Inr (x > y)"
| "greater_than (JBool b) y = Inr ((if b then 1 else 0) > y)"
| "greater_than _ y = Inl TypeError"

text \<open>The dictionary \<open>_create_fallback_decision\<close> returns.\<close>

definition fallback_decision :: "InterviewState \<Rightarrow> pystr \<Rightarrow> pystr \<Rightarrow> pydict" where
  "fallback_decision s action reasoning =
     [(str ''action'', JStr action),
      (str ''new_topic'', current_topic s),
      (str ''new_difficulty'', JNum (of_int (difficulty_level s))),
      (str ''reasoning'', JStr reasoning),
      (str ''instruction_to_interviewer'', JStr ask_next_question)]"

text \<open>
  \<open>CoordinatorAgent._create_fallback_decision\<close>. The second condition,
  \<open>questions_count >= 5 and state.get("assessment", {}).get("technical_score", 0) > 7\<close>,
  evaluates its right operand only when the left one holds; \<open>state.get("assessment", {})\<close>
  is the Assessment object of the state.
\<close>

definition create_fallback_decision :: "settings \<Rightarrow> InterviewState \<Rightarrow> pyerror + pydict" where
  "create_fallback_decision cfg s =
     (let questions_count = int (length (questions_asked s)) in
      if questions_count \<ge> MAX_TURNS cfg
      then Inr (fallback_decision s end_interview reason_limit)
      else if questions_count \<ge> 5
      then (case model_get (assessment s) (str ''technical_score'') (JNum 0) of
              Inl e \<Rightarrow> Inl e
            | Inr v \<Rightarrow>
                (case greater_than v 7 of
                   Inl e \<Rightarrow> Inl e
                 | Inr high \<Rightarrow>
                     if high then Inr (fallback_decision s end_interview reason_high_level)
                     else Inr (fallback_decision s continue reason_fallback)))
      else Inr (fallback_decision s continue reason_fallback))"

text \<open>\<open>s.startswith(p)\<close> and \<open>sub in s\<close> on strings.\<close>

fun startswith :: "pystr \<Rightarrow> pystr \<Rightarrow> bool" where
  "startswith s [] = True"
| "startswith [] (p # ps) = False"
| "startswith (c # cs) (p # ps) = (c = p \<and> startswith cs ps)"

fun contains :: "pystr \<Rightarrow> pystr \<Rightarrow> bool" where
  "contains [] sub = (sub = [])"
| "contains (c # cs) sub = (startswith (c # cs) sub \<or> contains cs sub)"

text \<open>
  \<open>s.split(sep)\<close> for a non-empty separator: the pieces between the occurrences of
  \<open>sep\<close>, found from left to right. \<open>acc\<close> is the piece being read.
\<close>

function split_on :: "pystr \<Rightarrow> pystr \<Rightarrow> pystr \<Rightarrow> pystr list" where
  "split_on sep acc s =
     (if s = [] then [acc]
      else if sep \<noteq> [] \<and> startswith s sep then acc # split_on sep [] (drop (length sep) s)
      else split_on sep (acc @ [hd s]) (tl s))"
  by pat_completeness auto
termination
  by (relation "measure (\<lambda>(sep, acc, s). length s)") auto

text \<open>\<open>xs[i]\<close> for a non-negative index.\<close>

definition item :: "'a list \<Rightarrow> nat \<Rightarrow> pyerror + 'a" where
  "item xs i = (if i < length xs then Inr (xs ! i) else Inl IndexError)"

definition fence_json :: pystr where
  "fence_json = str ''```json''"

definition fence :: pystr where
  "fence = str ''```''"

text \<open>\<open>content.split(opening)[1].split("```")[0].strip()\<close>\<close>

definition between_fences :: "builtins \<Rightarrow> pystr \<Rightarrow> pystr \<Rightarrow> pyerror + pystr" where
  "between_fences py opening text =
     (case item (split_on opening [] text) 1 of
        Inl e \<Rightarrow> Inl e
      | Inr rest \<Rightarrow>
          (case item (split_on fence [] rest) 0 of
             Inl e \<Rightarrow> Inl e
           | Inr body \<Rightarrow> Inr (py_strip py body)))"

text \<open>Line 72: line feed, carriage return and tab become spaces.\<close>

definition replace_controls :: "pystr \<Rightarrow> pystr" where
  "replace_controls text = map (\<lambda>c. if c = 10 \<or> c = 13 \<or> c = 9 then 32 else c) text"

text \<open>Lines 64-72 of \<open>decide_next_step\<close>: the text handed to \<open>json.loads\<close>.\<close>

definition cleaned_content :: "builtins \<Rightarrow> pystr \<Rightarrow> pyerror + pystr" where
  "cleaned_content py text =
     (let stripped = py_strip py text in
      case (if contains stripped fence_json then between_fences py fence_json stripped
            else if contains stripped fence then between_fences py fence stripped
            else Inr stripped) of
        Inl e \<Rightarrow> Inl e
      | Inr body \<Rightarrow> Inr (replace_controls body))"

text \<open>\<open>d.setdefault(k, v)\<close>\<close>

definition setdefault :: "pydict \<Rightarrow> pystr \<Rightarrow> json \<Rightarrow> pydict" where
  "setdefault d k v = (case map_of d k of None \<Rightarrow> dict_set d k v | Some _ \<Rightarrow> d)"

text \<open>Lines 76-80: the parsed decision, with its action and its defaults put right.\<close>

definition normalise_decision :: "pydict \<Rightarrow> pydict" where
  "normalise_decision decision =
     (let d1 = (if dict_get decision (str ''action'') JNull
                     \<in> set [JStr continue, JStr change_topic, JStr end_interview]
                then decision
                else dict_set decision (str ''action'') (JStr continue));
          d2 = setdefault d1 (str ''reasoning'') (JStr reason_default)
      in setdefault d2 (str ''instruction_to_interviewer'') (JStr ask_next_question))"

text \<open>
  \<open>CoordinatorAgent.decide_next_step\<close>. The prompt is rendered before the \<open>try\<close> block
  from the fields of the state; the template file is not part of the sources and the
  rendering is taken to succeed. Inside the \<open>try\<close> block every exception leads to
  \<open>_create_fallback_decision\<close>: the call of the service raising, \<open>json.loads\<close> raising,
  and \<open>decision.get\<close> on a parsed value that is not an object. An exception raised by
  \<open>_create_fallback_decision\<close> itself is raised inside the \<open>except\<close> clause, so it leaves
  \<open>decide_next_step\<close>.
\<close>

definition decide_next_step ::
    "builtins \<Rightarrow> settings \<Rightarrow> llm_reply \<Rightarrow> InterviewState \<Rightarrow> pyerror + pydict" where
  "decide_next_step py cfg reply s =
     (case reply of
        LLMRaised \<Rightarrow> create_fallback_decision cfg s
      | LLMContent text \<Rightarrow>
          (case cleaned_content py text of
             Inl e \<Rightarrow> create_fallback_decision cfg s
           | Inr cleaned \<Rightarrow>
               (case json_loads py cleaned of
                  None \<Rightarrow> create_fallback_decision cfg s
                | Some (JObj decision) \<Rightarrow> Inr (normalise_decision decision)
                | Some _ \<Rightarrow> create_fallback_decision cfg s)))"

text \<open>
  \<open>CoordinatorAgent.should_end_interview\<close>, which reads the score as the attribute
  \<open>assessment.technical_score\<close>. An Assessment object is true in a condition and has
  the attribute, so the guard \<open>assessment and hasattr(...)\<close> holds.
\<close>

definition should_end_interview :: "settings \<Rightarrow> InterviewState \<Rightarrow> bool" where
  "should_end_interview cfg s =
     (if interview_complete s then True
      else let questions_count = int (length (questions_asked s)) in
        if questions_count \<ge> MAX_TURNS cfg then True
        else if questions_count \<ge> 5 \<and> technical_score (assessment s) > 7 then True
        else False)"

text \<open>
  A state of a session under the default settings in which five questions have been
  asked and the technical score is \<open>t\<close>, and the text of a reply that is not JSON.
\<close>

definition five_questions :: "pystr list" where
  "five_questions = [str ''Q1?'', str ''Q2?'', str ''Q3?'', str ''Q4?'', str ''Q5?'']"

definition state_after_five :: "real \<Rightarrow> InterviewState" where
  "state_after_five t =
     (initial_state default_settings scenario_candidate 1)
       \<lparr>current_topic := JStr (str ''Python''),
        assessment := Assessment_default\<lparr>technical_score := t\<rparr>,
        questions_asked := five_questions\<rparr>"

definition not_json :: pystr where
  "not_json = str ''I think we should continue.''"


section \<open>agents/observer.py: analysing an answer\<close>

text \<open>The string literals of the Observer that hold Cyrillic text.\<close>

definition truncated_suffix :: pystr where
  \<comment> \<open>"... [" and the Russian for "answer cut off" and "]"\<close>
  "truncated_suffix =
     [46, 46, 46, 32, 91, 1086, 1090, 1074, 1077, 1090, 32, 1086, 1073, 1088, 1077,
      1079, 1072, 1085, 93]"

definition rag_disabled_info :: pystr where
  \<comment> \<open>"RAG" and the Russian for "switched off"\<close>
  "rag_disabled_info = [82, 65, 71, 32, 1086, 1090, 1082, 1083, 1102, 1095, 1077, 1085]"

definition continue_topic :: pystr where
  \<comment> \<open>Russian for "Continue the topic"\<close>
  "continue_topic =
     [1055, 1088, 1086, 1076, 1086, 1083, 1078, 1080, 1090, 1100, 32, 1090, 1077, 1084,
      1091]"

definition simplify_question :: pystr where
  \<comment> \<open>Russian for "Simplify the question"\<close>
  "simplify_question =
     [1059, 1087, 1088, 1086, 1089, 1090, 1080, 1090, 1100, 32, 1074, 1086, 1087, 1088,
      1086, 1089]"

definition incomplete_answer :: pystr where
  \<comment> \<open>Russian for "Incomplete answer"\<close>
  "incomplete_answer =
     [1053, 1077, 1087, 1086, 1083, 1085, 1099, 1081, 32, 1086, 1090, 1074, 1077, 1090]"

definition too_short_answer :: pystr where
  \<comment> \<open>Russian for "Answer too short"\<close>
  "too_short_answer =
     [1057, 1083, 1080, 1096, 1082, 1086, 1084, 32, 1082, 1088, 1072, 1090, 1082, 1080,
      1081, 32, 1086, 1090, 1074, 1077, 1090]"

definition no_understanding :: pystr where
  \<comment> \<open>Russian for "No understanding of the topic shown"\<close>
  "no_understanding =
     [1053, 1077, 32, 1087, 1086, 1082, 1072, 1079, 1072, 1085, 1086, 32, 1087, 1086,
      1085, 1080, 1084, 1072, 1085, 1080, 1077, 32, 1090, 1077, 1084, 1099]"

definition ask_simpler :: pystr where
  \<comment> \<open>Russian for "Ask a simpler question on the same topic or a clarifying question"\<close>
  "ask_simpler =
     [1047, 1072, 1076, 1072, 1090, 1100, 32, 1073, 1086, 1083, 1077, 1077, 32, 1087,
      1088, 1086, 1089, 1090, 1086, 1081, 32, 1074, 1086, 1087, 1088, 1086, 1089, 32,
      1087, 1086, 32, 1090, 1086, 1081, 32, 1078, 1077, 32, 1090, 1077, 1084, 1077, 32,
      1080, 1083, 1080, 32, 1091, 1090, 1086, 1095, 1085, 1103, 1102, 1097, 1080, 1081,
      32, 1074, 1086, 1087, 1088, 1086, 1089]"

definition generic_correction :: pystr where
  \<comment> \<open>the fixed correction of the short-answer branch, a Russian text on lists and tuples\<close>
  "generic_correction =
     [1057, 1087, 1080, 1089, 1082, 1080, 32, 1080, 1079, 1084, 1077, 1085, 1103, 1077,
      1084, 1099, 32, 40, 109, 117, 116, 97, 98, 108, 101, 41, 44, 32, 1082, 1086,
      1088, 1090, 1077, 1078, 1080, 32, 1085, 1077, 1080, 1079, 1084, 1077, 1085, 1103,
      1077, 1084, 1099, 32, 40, 105, 109, 109, 117, 116, 97, 98, 108, 101, 41, 46, 32,
      1057, 1087, 1080, 1089, 1082, 1080, 32, 1080, 1089, 1087, 1086, 1083, 1100, 1079,
      1091, 1102, 1090, 32, 91, 93, 44, 32, 1082, 1086, 1088, 1090, 1077, 1078, 1080,
      32, 1080, 1089, 1087, 1086, 1083, 1100, 1079, 1091, 1102, 1090, 32, 40, 41, 46,
      32, 1055, 1088, 1080, 1084, 1077, 1088, 32, 1080, 1089, 1087, 1086, 1083, 1100,
      1079, 1086, 1074, 1072, 1085, 1080, 1103, 32, 1089, 1087, 1080, 1089, 1082, 1072,
      58, 32, 1076, 1083, 1103, 32, 1093, 1088, 1072, 1085, 1077, 1085, 1080, 1103, 32,
      1101, 1083, 1077, 1084, 1077, 1085, 1090, 1086, 1074, 44, 32, 1082, 1086, 1090,
      1086, 1088, 1099, 1077, 32, 1084, 1086, 1075, 1091, 1090, 32, 1080, 1079, 1084,
      1077, 1085, 1103, 1090, 1100, 1089, 1103, 46, 32, 1055, 1088, 1080, 1084, 1077,
      1088, 32, 1080, 1089, 1087, 1086, 1083, 1100, 1079, 1086, 1074, 1072, 1085, 1080,
      1103, 32, 1082, 1086, 1088, 1090, 1077, 1078, 1072, 58, 32, 1076, 1083, 1103, 32,
      1082, 1086, 1086, 1088, 1076, 1080, 1085, 1072, 1090, 32, 40, 120, 44, 32, 121,
      41, 32, 1080, 1083, 1080, 32, 1082, 1086, 1085, 1089, 1090, 1072, 1085, 1090,
      1085, 1099, 1093, 32, 1076, 1072, 1085, 1085, 1099, 1093, 46]"

definition sr_nichem :: pystr where
  \<comment> \<open>Russian for "with nothing"\<close>
  "sr_nichem = [1085, 1080, 1095, 1077, 1084]"

definition sr_ne_znayu :: pystr where
  \<comment> \<open>Russian for "I do not know"\<close>
  "sr_ne_znayu = [1085, 1077, 32, 1079, 1085, 1072, 1102]"

definition sr_ne_pomnyu :: pystr where
  \<comment> \<open>Russian for "I do not remember"\<close>
  "sr_ne_pomnyu = [1085, 1077, 32, 1087, 1086, 1084, 1085, 1102]"

definition sr_net :: pystr where
  \<comment> \<open>Russian for "no"\<close>
  "sr_net = [1085, 1077, 1090]"

definition sr_ne :: pystr where
  \<comment> \<open>Russian for "not"\<close>
  "sr_ne = [1085, 1077]"

text \<open>
  The dictionary \<open>verify_technical_answer\<close> returns (core/rag.py), by the two keys the
  Observer reads; every dictionary that function builds has both.
\<close>

record Verification =
  confidence :: real
  correct_info :: pystr

text \<open>
  What the outside gives the Observer for one answer. \<open>rag_result\<close> is the result of
  \<open>verify_technical_answer\<close>, \<open>None\<close> when the call raised. \<open>llm_analysis\<close> is the result
  of lines 97-113: \<open>Some j\<close> when the prompt was rendered, the service replied and
  \<open>json.loads\<close> returned \<open>j\<close> for the cleaned reply, \<open>None\<close> when one of them raised.
\<close>

record observer_world =
  rag_result :: "Verification option"
  llm_analysis :: "json option"

definition create_empty_analysis :: pydict where
  "create_empty_analysis =
     [(str ''technical_score'', JNum 0),
      (str ''completeness_score'', JNum 0),
      (str ''confidence_score'', JNum 0),
      (str ''communication_score'', JNum 5),
      (str ''has_errors'', JBool False),
      (str ''errors_list'', JList []),
      (str ''is_evasive'', JBool False),
      (str ''depth_of_knowledge'', JStr (str ''unknown'')),
      (str ''recommendation_for_next_question'', JStr continue_topic),
      (str ''suggested_correction'', JStr [])]"

definition short_responses :: "pystr list" where
  "short_responses =
     [sr_nichem, sr_ne_znayu, sr_ne_pomnyu, sr_net, sr_ne, str ''no'', str ''don't know'']"

text \<open>\<open>ObserverAgent._fallback_analysis\<close>\<close>

definition fallback_analysis :: "builtins \<Rightarrow> pystr \<Rightarrow> Verification \<Rightarrow> pydict" where
  "fallback_analysis py answer verification =
     (let answer_lower = py_strip py (py_lower py answer);
          answer_length = int (length (py_split py answer))
      in
      if answer_lower \<in> set short_responses \<or> answer_length \<le> 2
      then
        [(str ''technical_score'', JNum 1),
         (str ''completeness_score'', JNum 1),
         (str ''confidence_score'', JNum 2),
         (str ''communication_score'', JNum 3),
         (str ''has_errors'', JBool True),
         (str ''errors_list'', JList [JStr too_short_answer, JStr no_understanding]),
         (str ''is_evasive'', JBool True),
         (str ''depth_of_knowledge'', JStr (str ''shallow'')),
         (str ''recommendation_for_next_question'', JStr ask_simpler),
         (str ''suggested_correction'', JStr generic_correction)]
      else
        let (score, conf, evasive) =
              (if answer_length < 15 then (3::int, 3::int, True)
               else if answer_length > 100 then (7, 8, False)
               else (5, 5, False))
        in
        [(str ''technical_score'', JNum (of_int score)),
         (str ''completeness_score'', JNum (of_int score)),
         (str ''confidence_score'', JNum (of_int conf)),
         (str ''communication_score'', JNum 5),
         (str ''has_errors'', JBool (confidence verification < 0.4)),
         (str ''errors_list'',
            (if answer_length < 25 then JList [JStr incomplete_answer] else JList [])),
         (str ''is_evasive'', JBool evasive),
         (str ''depth_of_knowledge'',
            JStr (if score > 6 then str ''adequate'' else str ''shallow'')),
         (str ''recommendation_for_next_question'',
            JStr (if score > 5 then continue_topic else simplify_question)),
         (str ''suggested_correction'', JStr (correct_info verification))])"

text \<open>
  \<open>ObserverAgent.analyze_answer\<close>. The result is the pair the method returns, or the
  exception it raises, together with the contents of the Assessment object of the
  state when the call ends: \<open>_update_assessment\<close> is given \<open>state["assessment"]\<close> itself.

  When the knowledge check raised, \<open>verification\<close> is unbound: rendering the prompt
  raises inside the \<open>try\<close> block, and the handler, which passes \<open>verification\<close> to
  \<open>_fallback_analysis\<close>, raises again, before the Assessment is touched. A parsed reply
  that is not an object has no \<open>get\<close>, which the handler turns into the fallback
  analysis.
\<close>

definition observer_analyze_answer ::
    "builtins \<Rightarrow> settings \<Rightarrow> observer_world \<Rightarrow> InterviewState \<Rightarrow> pystr \<Rightarrow> pystr
       \<Rightarrow> (pyerror + pydict) \<times> Assessment" where
  "observer_analyze_answer py cfg w s question answer =
     (if question = [] \<or> answer = [] then (Inr create_empty_analysis, assessment s)
      else
        let answer' = (if length answer > 4000 then take 4000 answer @ truncated_suffix
                       else answer);
            bound = (if RAG_ENABLED cfg then rag_result w
                     else Some \<lparr>confidence = 0.5, correct_info = rag_disabled_info\<rparr>)
        in
        case bound of
          None \<Rightarrow> (Inl NameError, assessment s)
        | Some verification \<Rightarrow>
            let analysis = (case llm_analysis w of
                              Some (JObj d) \<Rightarrow> d
                            | _ \<Rightarrow> fallback_analysis py answer' verification)
            in
            (case update_assessment (assessment s) analysis of
               (None, a) \<Rightarrow> (Inr analysis, a)
             | (Some e, a) \<Rightarrow> (Inl e, a)))"


section \<open>agents/interviewer.py\<close>

text \<open>The string literals of the Interviewer that hold Cyrillic text.\<close>

definition prefix_vopros :: pystr where
  \<comment> \<open>Russian for "Question:"\<close>
  "prefix_vopros = [1042, 1086, 1087, 1088, 1086, 1089, 58]"

definition prefix_interviewer :: pystr where
  \<comment> \<open>Russian for "Interviewer:"\<close>
  "prefix_interviewer = [1048, 1085, 1090, 1077, 1088, 1074, 1100, 1102, 1077, 1088, 58]"

definition key_databases :: pystr where
  \<comment> \<open>Russian for "databases"\<close>
  "key_databases = [1073, 1072, 1079, 1099, 32, 1076, 1072, 1085, 1085, 1099, 1093]"

definition python_q1 :: pystr where
  \<comment> \<open>Russian for "Tell us about your experience of working with Python?"\<close>
  "python_q1 =
     [1056, 1072, 1089, 1089, 1082, 1072, 1078, 1080, 1090, 1077, 32, 1086, 32, 1089,
      1074, 1086, 1077, 1084, 32, 1086, 1087, 1099, 1090, 1077, 32, 1088, 1072, 1073,
      1086, 1090, 1099, 32, 1089, 32, 80, 121, 116, 104, 111, 110, 63]"

definition python_q2 :: pystr where
  \<comment> \<open>Russian for "Which Python project do you consider the hardest and why?"\<close>
  "python_q2 =
     [1050, 1072, 1082, 1086, 1081, 32, 1087, 1088, 1086, 1077, 1082, 1090, 32, 1085,
      1072, 32, 80, 121, 116, 104, 111, 110, 32, 1074, 1099, 32, 1089, 1095, 1080,
      1090, 1072, 1077, 1090, 1077, 32, 1089, 1072, 1084, 1099, 1084, 32, 1089, 1083,
      1086, 1078, 1085, 1099, 1084, 32, 1080, 32, 1087, 1086, 1095, 1077, 1084, 1091,
      63]"

definition python_q3 :: pystr where
  \<comment> \<open>Russian for "Which Python libraries have you worked with?"\<close>
  "python_q3 =
     [1057, 32, 1082, 1072, 1082, 1080, 1084, 1080, 32, 80, 121, 116, 104, 111, 110,
      32, 1073, 1080, 1073, 1083, 1080, 1086, 1090, 1077, 1082, 1072, 1084, 1080, 32,
      1074, 1099, 32, 1088, 1072, 1073, 1086, 1090, 1072, 1083, 1080, 63]"

definition python_q4 :: pystr where
  \<comment> \<open>Russian for "How do you debug Python code?"\<close>
  "python_q4 =
     [1050, 1072, 1082, 32, 1074, 1099, 32, 1086, 1090, 1083, 1072, 1078, 1080, 1074,
      1072, 1077, 1090, 1077, 32, 80, 121, 116, 104, 111, 110, 32, 1082, 1086, 1076,
      63]"

definition python_q5 :: pystr where
  \<comment> \<open>Russian for "Tell us about design patterns in Python?"\<close>
  "python_q5 =
     [1056, 1072, 1089, 1089, 1082, 1072, 1078, 1080, 1090, 1077, 32, 1086, 32, 1087,
      1072, 1090, 1090, 1077, 1088, 1085, 1072, 1093, 32, 1087, 1088, 1086, 1077, 1082,
      1090, 1080, 1088, 1086, 1074, 1072, 1085, 1080, 1103, 32, 1074, 32, 80, 121, 116,
      104, 111, 110, 63]"

definition database_q1 :: pystr where
  \<comment> \<open>Russian for "How do you design database schemas?"\<close>
  "database_q1 =
     [1050, 1072, 1082, 32, 1074, 1099, 32, 1087, 1088, 1086, 1077, 1082, 1090, 1080,
      1088, 1091, 1077, 1090, 1077, 32, 1089, 1093, 1077, 1084, 1099, 32, 1073, 1072,
      1079, 32, 1076, 1072, 1085, 1085, 1099, 1093, 63]"

definition database_q2 :: pystr where
  \<comment> \<open>Russian for "How do you optimise slow SQL queries?"\<close>
  "database_q2 =
     [1050, 1072, 1082, 32, 1086, 1087, 1090, 1080, 1084, 1080, 1079, 1080, 1088, 1091,
      1077, 1090, 1077, 32, 1084, 1077, 1076, 1083, 1077, 1085, 1085, 1099, 1077, 32,
      83, 81, 76, 32, 1079, 1072, 1087, 1088, 1086, 1089, 1099, 63]"

definition database_q3 :: pystr where
  \<comment> \<open>Russian for "Tell us about your experience with transactions?"\<close>
  "database_q3 =
     [1056, 1072, 1089, 1089, 1082, 1072, 1078, 1080, 1090, 1077, 32, 1086, 32, 1074,
      1072, 1096, 1077, 1084, 32, 1086, 1087, 1099, 1090, 1077, 32, 1088, 1072, 1073,
      1086, 1090, 1099, 32, 1089, 32, 1090, 1088, 1072, 1085, 1079, 1072, 1082, 1094,
      1080, 1103, 1084, 1080, 63]"

definition database_q4 :: pystr where
  \<comment> \<open>Russian for "How do you keep databases secure?"\<close>
  "database_q4 =
     [1050, 1072, 1082, 32, 1086, 1073, 1077, 1089, 1087, 1077, 1095, 1080, 1074, 1072,
      1077, 1090, 1077, 32, 1073, 1077, 1079, 1086, 1087, 1072, 1089, 1085, 1086, 1089,
      1090, 1100, 32, 1073, 1072, 1079, 32, 1076, 1072, 1085, 1085, 1099, 1093, 63]"

definition database_q5 :: pystr where
  \<comment> \<open>Russian for "How do you work with schema migrations?"\<close>
  "database_q5 =
     [1050, 1072, 1082, 32, 1088, 1072, 1073, 1086, 1090, 1072, 1077, 1090, 1077, 32,
      1089, 32, 1084, 1080, 1075, 1088, 1072, 1094, 1080, 1103, 1084, 1080, 32, 1089,
      1093, 1077, 1084, 1099, 63]"

definition template_head :: pystr where
  \<comment> \<open>Russian for "Tell us about your experience of working with ", ending in a space\<close>
  "template_head =
     [1056, 1072, 1089, 1089, 1082, 1072, 1078, 1080, 1090, 1077, 32, 1086, 32, 1089,
      1074, 1086, 1077, 1084, 32, 1086, 1087, 1099, 1090, 1077, 32, 1088, 1072, 1073,
      1086, 1090, 1099, 32, 1089, 32]"

definition question_mark :: pystr where
  "question_mark = str ''?''"

text \<open>\<open>s.endswith(suffix)\<close>\<close>

definition endswith :: "pystr \<Rightarrow> pystr \<Rightarrow> bool" where
  "endswith s suffix = startswith (rev s) (rev suffix)"

text \<open>
  The dictionary \<open>fallback_questions\<close> of \<open>_get_fallback_question\<close>, in the order the
  source writes it, which is the order \<open>items()\<close> yields.
\<close>

definition fallback_bank :: "(pystr \<times> pystr list) list" where
  "fallback_bank =
     [(str ''python'', [python_q1, python_q2, python_q3, python_q4, python_q5]),
      (key_databases, [database_q1, database_q2, database_q3, database_q4, database_q5])]"

text \<open>The inner loop: the first question of a list that has not been asked.\<close>

fun first_unasked :: "pystr list \<Rightarrow> pystr list \<Rightarrow> pystr option" where
  "first_unasked [] asked = None"
| "first_unasked (q # qs) asked = (if q \<notin> set asked then Some q else first_unasked qs asked)"

text \<open>
  The outer loop: the keys in order; a key that occurs in the lower-cased topic has its
  questions searched, and the search goes on to the next key when all of them have
  been asked.
\<close>

fun search_bank :: "(pystr \<times> pystr list) list \<Rightarrow> pystr \<Rightarrow> pystr list \<Rightarrow> pystr option" where
  "search_bank [] topic_lower asked = None"
| "search_bank ((key, questions) # bank) topic_lower asked =
     (if contains topic_lower key
      then (case first_unasked questions asked of
              Some q \<Rightarrow> Some q
            | None \<Rightarrow> search_bank bank topic_lower asked)
      else search_bank bank topic_lower asked)"

text \<open>
  \<open>InterviewerAgent._get_fallback_question\<close>. The topic is the value the state holds;
  \<open>topic.lower()\<close> raises for a value that is not a string. The last line returns the
  generic template whatever has been asked.
\<close>

definition get_fallback_question ::
    "builtins \<Rightarrow> json \<Rightarrow> int \<Rightarrow> pystr list \<Rightarrow> pyerror + pystr" where
  "get_fallback_question py topic difficulty asked_questions =
     (case topic of
        JStr t \<Rightarrow>
          (case search_bank fallback_bank (py_lower py t) asked_questions of
             Some q \<Rightarrow> Inr q
           | None \<Rightarrow> Inr (template_head @ t @ question_mark))
      | _ \<Rightarrow> Inl AttributeError)"

text \<open>
  \<open>InterviewerAgent._generate_alternative_question\<close>: a second call of the service;
  its stripped reply is returned as it is when it is non-empty and new.
\<close>

definition generate_alternative_question ::
    "builtins \<Rightarrow> llm_reply \<Rightarrow> json \<Rightarrow> int \<Rightarrow> pystr list \<Rightarrow> pyerror + pystr" where
  "generate_alternative_question py reply topic difficulty asked_questions =
     (case reply of
        LLMRaised \<Rightarrow> get_fallback_question py topic difficulty asked_questions
      | LLMContent text \<Rightarrow>
          (let question = py_strip py text in
           if question \<noteq> [] \<and> question \<notin> set asked_questions then Inr question
           else get_fallback_question py topic difficulty asked_questions))"

text \<open>Lines 80-82: the loop over the four prefixes.\<close>

definition question_prefixes :: "pystr list" where
  "question_prefixes = [prefix_vopros, str ''Question:'', str ''Q:'', prefix_interviewer]"

fun strip_prefixes :: "builtins \<Rightarrow> pystr list \<Rightarrow> pystr \<Rightarrow> pystr" where
  "strip_prefixes py [] question = question"
| "strip_prefixes py (p # ps) question =
     strip_prefixes py ps
       (if startswith question p then py_strip py (drop (length p) question) else question)"

text \<open>
  \<open>InterviewerAgent.generate_question\<close>. \<open>reply\<close> is the outcome of rendering the prompt
  and calling the service inside the \<open>try\<close> block, \<open>alternative\<close> that of the second call.
  An exception of the regeneration is caught by the \<open>except\<close> clause of this method,
  which asks the fallback again.
\<close>

definition interviewer_generate_question ::
    "builtins \<Rightarrow> llm_reply \<Rightarrow> llm_reply \<Rightarrow> InterviewState \<Rightarrow> pyerror + pystr" where
  "interviewer_generate_question py reply alternative s =
     (let topic = current_topic s;
          difficulty = difficulty_level s;
          asked_questions = questions_asked s
      in
      case reply of
        LLMRaised \<Rightarrow> get_fallback_question py topic difficulty asked_questions
      | LLMContent text \<Rightarrow>
          (let q0 = strip_prefixes py question_prefixes (py_strip py text);
               question = (if endswith q0 question_mark then q0 else q0 @ question_mark)
           in
           if question \<in> set asked_questions
           then (case generate_alternative_question py alternative topic difficulty
                        asked_questions of
                   Inl e \<Rightarrow> get_fallback_question py topic difficulty asked_questions
                 | Inr q \<Rightarrow> Inr q)
           else Inr question))"


section \<open>core/graph.py: the nodes of the workflow\<close>

text \<open>The string literals of the nodes that hold Cyrillic text.\<close>

definition stop_word :: pystr where
  \<comment> \<open>Russian for "stop"\<close>
  "stop_word = [1089, 1090, 1086, 1087]"

definition stop_finish :: pystr where
  \<comment> \<open>Russian for "finish"\<close>
  "stop_finish = [1079, 1072, 1074, 1077, 1088, 1096, 1080, 1090, 1100]"

definition stop_end :: pystr where
  \<comment> \<open>Russian for "end"\<close>
  "stop_end = [1082, 1086, 1085, 1077, 1094]"

definition thought_answer_head :: pystr where
  \<comment> \<open>"[System]: " and the Russian for "Received an answer of length "\<close>
  "thought_answer_head =
     [91, 83, 121, 115, 116, 101, 109, 93, 58, 32, 1055, 1086, 1083, 1091, 1095, 1077,
      1085, 32, 1086, 1090, 1074, 1077, 1090, 32, 1076, 1083, 1080, 1085, 1086, 1081,
      32]"

definition thought_answer_tail :: pystr where
  \<comment> \<open>Russian for " characters"\<close>
  "thought_answer_tail = [32, 1089, 1080, 1084, 1074, 1086, 1083, 1086, 1074]"

definition thought_technical :: pystr where
  \<comment> \<open>"[Observer]: " and the Russian for "Technical score: "\<close>
  "thought_technical =
     [91, 79, 98, 115, 101, 114, 118, 101, 114, 93, 58, 32, 1058, 1077, 1093, 1085,
      1080, 1095, 1077, 1089, 1082, 1072, 1103, 32, 1086, 1094, 1077, 1085, 1082, 1072,
      58, 32]"

definition thought_communication :: pystr where
  \<comment> \<open>"[Observer]: " and the Russian for "Communication score: "\<close>
  "thought_communication =
     [91, 79, 98, 115, 101, 114, 118, 101, 114, 93, 58, 32, 1050, 1086, 1084, 1084,
      1091, 1085, 1080, 1082, 1072, 1094, 1080, 1086, 1085, 1085, 1072, 1103, 32, 1086,
      1094, 1077, 1085, 1082, 1072, 58, 32]"

definition thought_recommendation :: pystr where
  \<comment> \<open>"[Observer]: " and the Russian for "Recommendation: "\<close>
  "thought_recommendation =
     [91, 79, 98, 115, 101, 114, 118, 101, 114, 93, 58, 32, 1056, 1077, 1082, 1086,
      1084, 1077, 1085, 1076, 1072, 1094, 1080, 1103, 58, 32]"

definition thought_decision :: pystr where
  \<comment> \<open>Russian for "Decision: "\<close>
  "thought_decision = [1056, 1077, 1096, 1077, 1085, 1080, 1077, 58, 32]"

definition thought_reasoning :: pystr where
  \<comment> \<open>Russian for ", reasoning: "\<close>
  "thought_reasoning =
     [44, 32, 1086, 1073, 1086, 1089, 1085, 1086, 1074, 1072, 1085, 1080, 1077, 58, 32]"

definition thought_generated :: pystr where
  \<comment> \<open>Russian for "Generated a question on the topic " and an opening quote\<close>
  "thought_generated =
     [1057, 1075, 1077, 1085, 1077, 1088, 1080, 1088, 1086, 1074, 1072, 1085, 32, 1074,
      1086, 1087, 1088, 1086, 1089, 32, 1087, 1086, 32, 1090, 1077, 1084, 1077, 32, 39]"

definition thought_instruction :: pystr where
  \<comment> \<open>Russian for ", instruction: "\<close>
  "thought_instruction =
     [44, 32, 1080, 1085, 1089, 1090, 1088, 1091, 1082, 1094, 1080, 1103, 58, 32]"

definition stop_words :: "pystr list" where
  "stop_words = [stop_word, str ''stop'', stop_finish, stop_end, str ''exit'', str ''quit'']"

definition newline :: pystr where
  "newline = [10]"

definition apostrophe :: pystr where
  "apostrophe = [39]"

text \<open>
  What the outside gives one node: the replies of the reasoning service to the
  Coordinator and to the two calls of the Interviewer, the line read from the answer
  source (\<open>None\<close> when \<open>input\<close> raises \<open>EOFError\<close>), and the inputs of the Observer.
\<close>

record world =
  coordinator_reply :: llm_reply
  question_reply :: llm_reply
  alternative_reply :: llm_reply
  input_line :: "pystr option"
  observer_inputs :: observer_world

text \<open>
  \<open>InterviewWorkflow.start_interview\<close>, for a state that has every key: the five
  assignments at its end.
\<close>

definition start_interview :: "InterviewState \<Rightarrow> InterviewState" where
  "start_interview s =
     s\<lparr>interview_complete := False, need_feedback := False, current_question := None,
       current_answer := None, coordinator_instruction := JNull\<rparr>"

text \<open>
  \<open>InterviewWorkflow.coordinator_decision\<close>. An exception of \<open>decide_next_step\<close>, or of
  the slice \<open>reasoning[:100]\<close>, leaves the node.
\<close>

definition coordinator_decision ::
    "builtins \<Rightarrow> settings \<Rightarrow> world \<Rightarrow> InterviewState \<Rightarrow> pyerror + InterviewState" where
  "coordinator_decision py cfg w s =
     (if should_end_interview cfg s then Inr (s\<lparr>interview_complete := True\<rparr>)
      else
        case decide_next_step py cfg (coordinator_reply w) s of
          Inl e \<Rightarrow> Inl e
        | Inr decision \<Rightarrow>
            let s1 = s\<lparr>coordinator_instruction :=
                         dict_get decision (str ''instruction_to_interviewer'') (JStr [])\<rparr>;
                s2 = (if dict_get decision (str ''action'') JNull = JStr change_topic
                         \<and> truthy (dict_get decision (str ''new_topic'') JNull)
                      then s1\<lparr>current_topic := dict_get decision (str ''new_topic'') JNull\<rparr>
                      else s1);
                s3 = s2\<lparr>current_turn_thoughts := []\<rparr>;
                thought0 = thought_decision
                             @ py_format py (dict_get decision (str ''action'') (JStr continue))
            in
            case (if truthy (dict_get decision (str ''reasoning'') JNull)
                  then (case py_slice 100 (dict_get decision (str ''reasoning'') JNull) of
                          Inl e \<Rightarrow> Inl e
                        | Inr r \<Rightarrow>
                            Inr (thought0 @ thought_reasoning @ py_format py r @ str ''...''))
                  else Inr thought0) of
              Inl e \<Rightarrow> Inl e
            | Inr thought \<Rightarrow>
                let s4 = s3\<lparr>current_turn_thoughts :=
                              current_turn_thoughts s3 @ [str ''[Coordinator]: '' @ thought]\<rparr>
                in
                Inr (if dict_get decision (str ''action'') JNull = JStr end_interview
                     then s4\<lparr>interview_complete := True\<rparr>
                     else s4))"

text \<open>\<open>InterviewWorkflow.generate_question\<close>\<close>

definition generate_question ::
    "builtins \<Rightarrow> world \<Rightarrow> InterviewState \<Rightarrow> pyerror + InterviewState" where
  "generate_question py w s =
     (case interviewer_generate_question py (question_reply w) (alternative_reply w) s of
        Inl e \<Rightarrow> Inl e
      | Inr question \<Rightarrow>
          let thought0 = thought_generated @ py_format py (current_topic s) @ apostrophe
          in
          case (if truthy (coordinator_instruction s)
                then (case py_slice 100 (coordinator_instruction s) of
                        Inl e \<Rightarrow> Inl e
                      | Inr i \<Rightarrow>
                          Inr (thought0 @ thought_instruction @ py_format py i @ str ''...''))
                else Inr thought0) of
            Inl e \<Rightarrow> Inl e
          | Inr thought \<Rightarrow>
              Inr (s\<lparr>current_turn_thoughts :=
                         current_turn_thoughts s @ [str ''[Interviewer]: '' @ thought],
                      messages := messages s @ [\<lparr>role = str ''interviewer'', content = question\<rparr>],
                      current_question := Some question,
                      questions_asked := questions_asked s @ [question],
                      current_answer := Some []\<rparr>))"

text \<open>
  \<open>InterviewWorkflow.get_user_answer\<close>. Printing the question changes nothing. The
  line is stripped; \<open>EOFError\<close> puts the stop word in its place, which is not stripped.
\<close>

definition get_user_answer :: "builtins \<Rightarrow> world \<Rightarrow> InterviewState \<Rightarrow> InterviewState" where
  "get_user_answer py w s =
     (let user_input = (case input_line w of
                          None \<Rightarrow> stop_word
                        | Some line \<Rightarrow> py_strip py line)
      in
      if py_lower py user_input \<in> set stop_words
      then s\<lparr>interview_complete := True, current_answer := Some user_input\<rparr>
      else
        s\<lparr>messages := messages s @ [\<lparr>role = str ''user'', content = user_input\<rparr>],
          current_turn_thoughts :=
            current_turn_thoughts s
              @ [thought_answer_head @ py_format py (JNum (of_nat (length user_input)))
                   @ thought_answer_tail],
          current_answer := Some user_input\<rparr>)"

text \<open>Lines 242-258 of \<open>analyze_answer\<close>: the text logged as the turn's thoughts.\<close>

definition turn_thoughts :: "builtins \<Rightarrow> pystr list \<Rightarrow> pydict \<Rightarrow> pystr" where
  "turn_thoughts py thoughts analysis =
     (let t0 = concat (map (\<lambda>thought. thought @ newline) thoughts);
          t1 = (if truthy (dict_get analysis (str ''reasoning'') JNull)
                then t0 @ str ''[Observer]: ''
                       @ py_format py (dict_get analysis (str ''reasoning'') JNull) @ newline
                else t0);
          t2 = (if dict_get analysis (str ''technical_score'') JNull \<noteq> JNull
                then t1 @ thought_technical
                       @ py_format py (dict_get analysis (str ''technical_score'') JNull)
                       @ str ''/10'' @ newline
                else t1);
          t3 = (if dict_get analysis (str ''communication_score'') JNull \<noteq> JNull
                then t2 @ thought_communication
                       @ py_format py (dict_get analysis (str ''communication_score'') JNull)
                       @ str ''/10'' @ newline
                else t2)
      in
      if truthy (dict_get analysis (str ''recommendation_for_next_question'') JNull)
      then t3 @ thought_recommendation
             @ py_format py (dict_get analysis (str ''recommendation_for_next_question'') JNull)
             @ newline
      else t3)"

text \<open>
  \<open>InterviewWorkflow.analyze_answer\<close>. The body after the guard is one \<open>try\<close> block whose
  handler prints and goes on, so the node always returns a state. When the Observer
  raises, none of the assignments to the state is executed; the Assessment the state
  refers to is the object the Observer was working on, with whatever
  \<open>_update_assessment\<close> had assigned before the exception.
\<close>

definition analyze_answer ::
    "builtins \<Rightarrow> settings \<Rightarrow> world \<Rightarrow> InterviewState \<Rightarrow> InterviewState" where
  "analyze_answer py cfg w s =
     (case (current_question s, current_answer s) of
        (Some question, Some answer) \<Rightarrow>
          if question = [] \<or> answer = [] then s
          else
            (case observer_analyze_answer py cfg (observer_inputs w) s question answer of
               (Inl e, a) \<Rightarrow> s\<lparr>assessment := a\<rparr>
             | (Inr analysis, a) \<Rightarrow>
                 s\<lparr>log_data :=
                     add_turn (log_data s) question answer
                       (py_strip py (turn_thoughts py (current_turn_thoughts s) analysis)),
                   assessment := a,
                   observer_recommendation :=
                     dict_get analysis (str ''recommendation_for_next_question'') (JStr []),
                   current_turn_thoughts := [],
                   coordinator_instruction := JNull\<rparr>)
      | _ \<Rightarrow> s)"

text \<open>\<open>InterviewWorkflow.check_should_continue\<close>: \<open>True\<close> stands for \<open>"continue"\<close>.\<close>

definition check_should_continue :: "settings \<Rightarrow> InterviewState \<Rightarrow> bool" where
  "check_should_continue cfg s =
     (if interview_complete s then False
      else if int (length (questions_asked s)) \<ge> MAX_TURNS cfg then False
      else True)"

section \<open>core/graph.py: the graph\<close>

text \<open>The nodes added in \<open>__init__\<close>, and \<open>END\<close>.\<close>

datatype node =
    N_start_interview
  | N_coordinator_decision
  | N_generate_question
  | N_get_user_answer
  | N_analyze_answer
  | N_generate_feedback
  | N_end_interview
  | N_END

text \<open>
  One step of the compiled graph: the function of the current node is run on the
  state, and the edge leaving the node gives the next one; the edge after
  \<open>coordinator_decision\<close> is the conditional one. An exception of a node ends the run.
  The step is given for the nodes of the interview loop. The Reporter behind
  \<open>generate_feedback\<close> is not part of the model, so from that node on a step changes
  nothing.
\<close>

fun step ::
    "builtins \<Rightarrow> settings \<Rightarrow> world \<Rightarrow> node \<times> InterviewState
       \<Rightarrow> pyerror + node \<times> InterviewState" where
  "step py cfg w (N_start_interview, s) = Inr (N_coordinator_decision, start_interview s)"
| "step py cfg w (N_coordinator_decision, s) =
     (case coordinator_decision py cfg w s of
        Inl e \<Rightarrow> Inl e
      | Inr s' \<Rightarrow>
          Inr (if check_should_continue cfg s' then N_generate_question
               else N_generate_feedback, s'))"
| "step py cfg w (N_generate_question, s) =
     (case generate_question py w s of
        Inl e \<Rightarrow> Inl e
      | Inr s' \<Rightarrow> Inr (N_get_user_answer, s'))"
| "step py cfg w (N_get_user_answer, s) = Inr (N_analyze_answer, get_user_answer py w s)"
| "step py cfg w (N_analyze_answer, s) = Inr (N_coordinator_decision, analyze_answer py cfg w s)"
| "step py cfg w (n, s) = Inr (n, s)"

text \<open>A run: one step for each element of a list of outside inputs, in order.\<close>

fun run_steps ::
    "builtins \<Rightarrow> settings \<Rightarrow> world list \<Rightarrow> node \<times> InterviewState
       \<Rightarrow> pyerror + node \<times> InterviewState" where
  "run_steps py cfg [] c = Inr c"
| "run_steps py cfg (w # ws) c =
     (case step py cfg w c of
        Inl e \<Rightarrow> Inl e
      | Inr c' \<Rightarrow> run_steps py cfg ws c')"

section \<open>agents/feedback\_generator.py: the candidate level\<close>

definition level_under_question :: pystr where
  \<comment> \<open>Russian for "In question"\<close>
  "level_under_question =
     [1055, 1086, 1076, 32, 1074, 1086, 1087, 1088, 1086, 1089, 1086, 1084]"

text \<open>
  \<open>FeedbackGenerator._determine_level\<close>. The last branch is taken for every grade that
  is neither \<open>junior\<close> nor \<open>middle\<close> in lower case.
\<close>

definition determine_level :: "builtins \<Rightarrow> Assessment \<Rightarrow> CandidateInfo \<Rightarrow> pystr" where
  "determine_level py a candidate =
     (let tech_score = technical_score a in
      if py_lower py (grade candidate) = str ''junior''
      then (if tech_score \<ge> 7 then str ''Middle-ready Junior'' else str ''Junior'')
      else if py_lower py (grade candidate) = str ''middle''
      then (if tech_score \<ge> 8 then str ''Senior-ready Middle''
            else if tech_score \<ge> 6 then str ''Middle''
            else str ''Junior+'')
      else (if tech_score \<ge> 9 then str ''Senior''
            else if tech_score \<ge> 7 then str ''Middle+''
            else level_under_question))"


section \<open>Concrete sessions\<close>

text \<open>
  A session in which the reasoning service is of no use: the Coordinator gets a reply
  that is not JSON, the calls of the Interviewer and of the Observer raise, and the
  knowledge check answers with confidence 0.3.
\<close>

definition world_down :: world where
  "world_down =
     \<lparr>coordinator_reply = LLMContent not_json,
      question_reply = LLMRaised,
      alternative_reply = LLMRaised,
      input_line = None,
      observer_inputs = \<lparr>rag_result = Some \<lparr>confidence = 0.3, correct_info = []\<rparr>,
                          llm_analysis = None\<rparr>\<rparr>"

text \<open>The same, with the candidate typing \<open>stop\<close>.\<close>

definition world_stop :: world where
  "world_stop = world_down\<lparr>input_line := Some (str ''stop'')\<rparr>"

text \<open>
  The state in which such a session waits for its first answer: the topic is still
  empty, the Coordinator's fallback said \<open>continue\<close>, and the question is the generic
  template for the empty topic.
\<close>

definition first_question :: pystr where
  "first_question = template_head @ question_mark"

definition state_awaiting :: InterviewState where
  "state_awaiting =
     (initial_state default_settings scenario_candidate 1)
       \<lparr>messages := [\<lparr>role = str ''interviewer'', content = first_question\<rparr>],
        questions_asked := [first_question],
        current_question := Some first_question,
        current_answer := Some [],
        coordinator_instruction := JStr ask_next_question,
        current_turn_thoughts :=
          [str ''[Coordinator]: '' @ thought_decision @ continue @ thought_reasoning
             @ reason_fallback @ str ''...'',
           str ''[Interviewer]: '' @ thought_generated @ apostrophe @ thought_instruction
             @ ask_next_question @ str ''...'']\<rparr>"

text \<open>
  A state with two logged turns and a pending answer to the fifth question, and a
  reply of the reasoning service to the Observer that parses to an object with the
  technical score only.
\<close>

definition pending_answer :: pystr where
  "pending_answer = str ''A list can be changed after it is created''"

definition state_pending :: InterviewState where
  "state_pending =
     (state_after_five 5)
       \<lparr>current_question := Some (str ''Q5?''),
        current_answer := Some pending_answer,
        log_data := add_turns (init_log_data scenario_candidate)
                      [(str ''Q1?'', str ''A1'', []), (str ''Q2?'', str ''A2'', [])]\<rparr>"

definition partial_analysis :: pydict where
  "partial_analysis = [(str ''technical_score'', JNum 8)]"

definition world_partial :: world where
  "world_partial =
     world_down\<lparr>observer_inputs :=
       \<lparr>rag_result = Some \<lparr>confidence = 0.3, correct_info = []\<rparr>,
        llm_analysis = Some (JObj partial_analysis)\<rparr>\<rparr>"



text \<open>A reply that is a statement, not a question.\<close>

definition statement_reply :: pystr where
  "statement_reply = str ''Tell me about generators''"

text \<open>A junior candidate whose technical score is 6.5.\<close>

definition junior_candidate :: CandidateInfo where
  "junior_candidate = scenario_candidate\<lparr>grade := str ''Junior''\<rparr>"

definition assessment_six_and_half :: Assessment where
  "assessment_six_and_half = Assessment_default\<lparr>technical_score := 6.5\<rparr>"

section \<open>Properties of the assessment update\<close>

lemma smoothing_in_range:
  fixes old x :: real
  assumes "0 \<le> old" "old \<le> 10" "0 \<le> x" "x \<le> 10"
  shows "0 \<le> old * 0.7 + x * 0.3" and "old * 0.7 + x * 0.3 \<le> 10"
  using assms by auto

lemma update_gaps_scores:
  assumes "update_gaps a analysis = Inr a'"
  shows "technical_score a' = technical_score a"
    and "communication_score a' = communication_score a"
    and "confidence_score a' = confidence_score a"
  using assms
  by (auto simp: update_gaps_def split: sum.splits if_splits)

lemma update_assessment_scores:
  assumes t: "score_of analysis (str ''technical_score'') = Inr t"
    and c: "score_of analysis (str ''communication_score'') = Inr c"
    and f: "score_of analysis (str ''confidence_score'') = Inr f"
  shows "technical_score (snd (update_assessment a analysis)) = technical_score a * 0.7 + t * 0.3"
    and "communication_score (snd (update_assessment a analysis)) =
           communication_score a * 0.7 + c * 0.3"
    and "confidence_score (snd (update_assessment a analysis)) =
           confidence_score a * 0.7 + f * 0.3"
  using t c f
  by (auto simp: update_assessment_def Let_def split: sum.splits dest: update_gaps_scores)

lemma update_assessment_in_range:
  assumes "scores_in_range a" and "evaluation_in_range analysis"
  shows "scores_in_range (snd (update_assessment a analysis))"
proof -
  from assms(2) obtain t c f where
    t: "score_of analysis (str ''technical_score'') = Inr t" "0 \<le> t" "t \<le> 10" and
    c: "score_of analysis (str ''communication_score'') = Inr c" "0 \<le> c" "c \<le> 10" and
    f: "score_of analysis (str ''confidence_score'') = Inr f" "0 \<le> f" "f \<le> 10"
    by (auto simp: evaluation_in_range_def score_in_range_def split: sum.splits)
  note eqs = update_assessment_scores [OF t(1) c(1) f(1), of a]
  from assms(1) t(2,3) c(2,3) f(2,3) show ?thesis
    unfolding scores_in_range_def eqs
    by (auto intro: smoothing_in_range)
qed

text \<open>
  Claim C1. Starting from the zero-valued Assessment and applying the assessment update
  for each evaluation of a sequence in order, the technical, communication and
  confidence scores of the Assessment stay within [0, 10], provided the three score
  inputs of every evaluation lie in [0, 10].
\<close>

theorem running_scores_stay_in_range:
  assumes "\<forall>ev \<in> set evs. evaluation_in_range ev"
  shows "scores_in_range (apply_updates Assessment_default evs)"
proof -
  have "scores_in_range a \<Longrightarrow> \<forall>ev \<in> set evs. evaluation_in_range ev \<Longrightarrow>
        scores_in_range (apply_updates a evs)" for a
  proof (induction evs arbitrary: a)
    case Nil
    then show ?case by simp
  next
    case (Cons ev evs)
    then show ?case by (simp add: update_assessment_in_range)
  qed
  moreover have "scores_in_range Assessment_default"
    by (simp add: scores_in_range_def Assessment_default_def)
  ultimately show ?thesis using assms by blast
qed

theorem running_scores_stay_in_range_witness:
  "evaluation_in_range scenario_evaluation \<and>
   scores_in_range (apply_updates Assessment_default [scenario_evaluation, scenario_evaluation])"
proof -
  have e: "evaluation_in_range scenario_evaluation"
    by (simp add: evaluation_in_range_def score_in_range_def score_of_def subscript_def
        scenario_evaluation_def str_def)
  then have h: "\<forall>ev \<in> set [scenario_evaluation, scenario_evaluation]. evaluation_in_range ev"
    by simp
  from running_scores_stay_in_range [OF h] e show ?thesis by blast
qed

lemma update_assessment_technical:
  assumes "score_of analysis (str ''technical_score'') = Inr t"
  shows "technical_score (snd (update_assessment a analysis)) = technical_score a * 0.7 + t * 0.3"
  using assms
  by (auto simp: update_assessment_def Let_def split: sum.splits dest: update_gaps_scores)

text \<open>
  Claim C8. For each of the three running scores the assessment update computes
  new = old * 0.7 + incoming * 0.3; and starting from the zero-valued Assessment, three
  updates whose incoming technical score is 8 leave a technical score of exactly 5.256.
\<close>

theorem update_is_exponential_smoothing:
  "(score_of analysis (str ''technical_score'') = Inr t \<longrightarrow>
    score_of analysis (str ''communication_score'') = Inr c \<longrightarrow>
    score_of analysis (str ''confidence_score'') = Inr f \<longrightarrow>
      technical_score (snd (update_assessment a analysis)) = technical_score a * 0.7 + t * 0.3 \<and>
      communication_score (snd (update_assessment a analysis)) =
        communication_score a * 0.7 + c * 0.3 \<and>
      confidence_score (snd (update_assessment a analysis)) =
        confidence_score a * 0.7 + f * 0.3) \<and>
   (score_of e1 (str ''technical_score'') = Inr 8 \<longrightarrow>
    score_of e2 (str ''technical_score'') = Inr 8 \<longrightarrow>
    score_of e3 (str ''technical_score'') = Inr 8 \<longrightarrow>
      technical_score (apply_updates Assessment_default [e1, e2, e3]) = 8 * (1 - 0.7 ^ 3) \<and>
      technical_score (apply_updates Assessment_default [e1, e2, e3]) = 5.256)"
proof (intro conjI impI)
  assume e: "score_of e1 (str ''technical_score'') = Inr 8"
    "score_of e2 (str ''technical_score'') = Inr 8"
    "score_of e3 (str ''technical_score'') = Inr 8"
  then show "technical_score (apply_updates Assessment_default [e1, e2, e3]) = 5.256"
    by (simp add: update_assessment_technical Assessment_default_def)
  from e show "technical_score (apply_updates Assessment_default [e1, e2, e3])
                 = 8 * (1 - 0.7 ^ 3)"
    by (simp add: update_assessment_technical Assessment_default_def power3_eq_cube)
qed (simp_all add: update_assessment_scores)

theorem update_is_exponential_smoothing_witness:
  "score_of scenario_evaluation (str ''technical_score'') = Inr 8 \<and>
   score_of scenario_evaluation (str ''communication_score'') = Inr 7 \<and>
   score_of scenario_evaluation (str ''confidence_score'') = Inr 7 \<and>
   technical_score (snd (update_assessment Assessment_default scenario_evaluation)) = 2.4 \<and>
   communication_score (snd (update_assessment Assessment_default scenario_evaluation)) = 2.1 \<and>
   confidence_score (snd (update_assessment Assessment_default scenario_evaluation)) = 2.1 \<and>
   technical_score
     (apply_updates Assessment_default
        [scenario_evaluation, scenario_evaluation, scenario_evaluation]) = 5.256"
proof -
  have t: "score_of scenario_evaluation (str ''technical_score'') = Inr 8"
    and c: "score_of scenario_evaluation (str ''communication_score'') = Inr 7"
    and f: "score_of scenario_evaluation (str ''confidence_score'') = Inr 7"
    by (simp_all add: score_of_def subscript_def scenario_evaluation_def str_def)
  from update_is_exponential_smoothing
         [of scenario_evaluation 8 7 7 Assessment_default
             scenario_evaluation scenario_evaluation scenario_evaluation]
       t c f
  show ?thesis by (simp add: Assessment_default_def)
qed


section \<open>Properties of the session log\<close>

lemma add_turn_turns:
  "turns (add_turn ld q a t) =
     turns ld @ [\<lparr>turn_id = int (length (turns ld)) + 1, agent_visible_message = q,
                  user_message = a, internal_thoughts = t\<rparr>]"
  by (simp add: add_turn_def)

lemma add_turn_keeps_ids:
  assumes "map turn_id (turns ld) = [1..int (length (turns ld))]"
  shows "map turn_id (turns (add_turn ld q a t)) = [1..int (length (turns (add_turn ld q a t)))]"
proof -
  have "[1..int (length (turns ld)) + 1] = [1..int (length (turns ld))] @ [int (length (turns ld)) + 1]"
    using upto_rec2 [of 1 "int (length (turns ld)) + 1"] by simp
  with assms show ?thesis
    by (simp add: add_turn_turns add.commute)
qed

lemma add_turns_length:
  "length (turns (add_turns ld xs)) = length (turns ld) + length xs"
  by (induction ld xs rule: add_turns.induct) (simp_all add: add_turn_turns)

lemma add_turns_keeps_ids:
  "map turn_id (turns ld) = [1..int (length (turns ld))] \<Longrightarrow>
   map turn_id (turns (add_turns ld xs)) = [1..int (length (turns (add_turns ld xs)))]"
proof (induction ld xs rule: add_turns.induct)
  case (1 ld)
  then show ?case by simp
next
  case (2 ld q a t rest)
  from add_turn_keeps_ids [OF "2.prems"] show ?case
    by (simp add: "2.IH")
qed


section \<open>Properties of the Coordinator\<close>

lemma fallback_at_limit:
  assumes "MAX_TURNS cfg \<le> int (length (questions_asked s))"
  shows "create_fallback_decision cfg s = Inr (fallback_decision s end_interview reason_limit)"
  using assms by (simp add: create_fallback_decision_def)

lemma fallback_before_five:
  assumes "int (length (questions_asked s)) < MAX_TURNS cfg"
    and "length (questions_asked s) < 5"
  shows "create_fallback_decision cfg s = Inr (fallback_decision s continue reason_fallback)"
  using assms by (simp add: create_fallback_decision_def)

lemma fallback_raises:
  assumes "int (length (questions_asked s)) < MAX_TURNS cfg"
    and "5 \<le> length (questions_asked s)"
  shows "create_fallback_decision cfg s = Inl AttributeError"
  using assms by (simp add: create_fallback_decision_def model_get_def)

lemma unparsable_reply_falls_back:
  assumes "cleaned_content py text = Inr cleaned" and "json_loads py cleaned = None"
  shows "decide_next_step py cfg (LLMContent text) s = create_fallback_decision cfg s"
  using assms by (simp add: decide_next_step_def)

lemma fallback_decision_fields:
  "dict_get (fallback_decision s action reasoning) (str ''action'') JNull = JStr action"
  "dict_get (fallback_decision s action reasoning) (str ''new_topic'') JNull = current_topic s"
  "dict_get (fallback_decision s action reasoning) (str ''new_difficulty'') JNull =
     JNum (of_int (difficulty_level s))"
  by (simp_all add: fallback_decision_def dict_get_def str_def)

lemma state_after_five_count:
  "int (length (questions_asked (state_after_five t))) = 5"
  by (simp add: state_after_five_def initial_state_def five_questions_def)

text \<open>
  Claim C3, at a state the code can be in. With five questions asked, fewer than the
  ten allowed, the rule of the claim asks for \<open>end_interview\<close> when the technical score
  is 8 and for \<open>continue\<close> when it is 5. \<open>_create_fallback_decision\<close> returns no decision
  in either state: reading the score raises \<open>AttributeError\<close>.
\<close>

theorem fallback_decision_raises_after_five:
  "create_fallback_decision default_settings (state_after_five 8) = Inl AttributeError \<and>
   create_fallback_decision default_settings (state_after_five 5) = Inl AttributeError"
  by (simp add: create_fallback_decision_def state_after_five_count model_get_def
      default_settings_def)

lemma not_json_cleaned: "cleaned_content py0 not_json = Inr not_json"
  by (simp add: cleaned_content_def py0_def not_json_def str_def fence_json_def fence_def
      replace_controls_def is_space_def Let_def)

text \<open>
  Claim C2, at a state the session can be in. Five questions have been asked, the
  technical score is 5, so \<open>should_end_interview\<close> lets the session go on and the
  Coordinator is asked. The reply is not JSON. \<open>decide_next_step\<close> returns no decision:
  the \<open>AttributeError\<close> of \<open>_create_fallback_decision\<close> leaves it, and leaves the node.
\<close>

theorem unparsable_reply_raises_after_five:
  "\<not> should_end_interview default_settings (state_after_five 5) \<and>
   cleaned_content py0 not_json = Inr not_json \<and>
   json_loads py0 not_json = None \<and>
   decide_next_step py0 default_settings (LLMContent not_json) (state_after_five 5)
     = Inl AttributeError \<and>
   step py0 default_settings world_down (N_coordinator_decision, state_after_five 5)
     = Inl AttributeError"
proof -
  have c: "int (length (questions_asked (state_after_five 5))) = 5"
    by (rule state_after_five_count)
  have e: "\<not> should_end_interview default_settings (state_after_five 5)"
    using c by (simp add: should_end_interview_def default_settings_def)
       (simp add: state_after_five_def initial_state_def Assessment_default_def)
  have j: "json_loads py0 not_json = None"
    by (simp add: py0_def)
  have f: "create_fallback_decision default_settings (state_after_five 5) = Inl AttributeError"
    by (rule fallback_raises)
       (simp_all add: c default_settings_def, simp add: state_after_five_def five_questions_def)
  have d: "decide_next_step py0 default_settings (LLMContent not_json) (state_after_five 5)
             = Inl AttributeError"
    using unparsable_reply_falls_back [OF not_json_cleaned j] f by simp
  show ?thesis
    using e j d not_json_cleaned by (simp add: coordinator_decision_def world_down_def)
qed


section \<open>Properties of the Evaluating node\<close>

lemma analyze_answer_turns:
  "turns (log_data (analyze_answer py cfg w s)) = turns (log_data s) \<or>
   (\<exists>q a t. current_question s = Some q \<and> current_answer s = Some a \<and>
      turns (log_data (analyze_answer py cfg w s)) =
        turns (log_data s) @ [\<lparr>turn_id = int (length (turns (log_data s))) + 1,
            agent_visible_message = q, user_message = a, internal_thoughts = t\<rparr>])"
  by (auto simp: analyze_answer_def add_turn_turns split: option.splits sum.splits prod.splits)

lemma analyze_answer_keeps:
  "interview_complete (analyze_answer py cfg w s) = interview_complete s"
  "questions_asked (analyze_answer py cfg w s) = questions_asked s"
  by (auto simp: analyze_answer_def split: option.splits sum.splits prod.splits)

lemma analyze_answer_observer_raises:
  assumes "current_question s = Some q" "current_answer s = Some a"
    and "observer_analyze_answer py cfg (observer_inputs w) s q a = (Inl e, a')"
  shows "analyze_answer py cfg w s = s\<lparr>assessment := a'\<rparr>"
  using assms
  by (auto simp: analyze_answer_def observer_analyze_answer_def split: if_splits)

lemma partial_analysis_update:
  "update_assessment (assessment state_pending) partial_analysis =
     (Some KeyError, (assessment state_pending)\<lparr>technical_score := 5.9\<rparr>)"
  by (simp add: update_assessment_def score_of_def subscript_def partial_analysis_def str_def
      state_pending_def state_after_five_def Assessment_default_def)

text \<open>
  Claim C7, at a state the session can be in. Two turns are logged and the technical
  score is 5 when the answer to the fifth question is evaluated. The reasoning service
  replies with an object that has a technical score of 8 and nothing else, so
  \<open>_update_assessment\<close> raises \<open>KeyError\<close> at the communication score. The node catches the
  exception and the two logged turns are kept, but the Assessment is not what it was
  before the evaluation began: its technical score is 5 * 0.7 + 8 * 0.3 = 5.9.
\<close>

theorem failed_evaluation_changes_assessment:
  "turns (log_data (analyze_answer py0 default_settings world_partial state_pending))
     = turns (log_data state_pending) \<and>
   length (turns (log_data state_pending)) = 2 \<and>
   technical_score (assessment state_pending) = 5 \<and>
   technical_score (assessment (analyze_answer py0 default_settings world_partial state_pending))
     = 5.9 \<and>
   assessment (analyze_answer py0 default_settings world_partial state_pending)
     \<noteq> assessment state_pending"
proof -
  have o: "observer_analyze_answer py0 default_settings (observer_inputs world_partial)
             state_pending (str ''Q5?'') pending_answer
           = (Inl KeyError, (assessment state_pending)\<lparr>technical_score := 5.9\<rparr>)"
    by (simp add: observer_analyze_answer_def world_partial_def default_settings_def
          partial_analysis_update)
       (simp add: str_def pending_answer_def)
  have q: "current_question state_pending = Some (str ''Q5?'')"
    and a: "current_answer state_pending = Some pending_answer"
    by (simp_all add: state_pending_def)
  have t: "technical_score (assessment state_pending) = 5"
    by (simp add: state_pending_def state_after_five_def)
  have n: "length (turns (log_data state_pending)) = 2"
    by (simp add: state_pending_def add_turn_turns init_log_data_def)
  note r = analyze_answer_observer_raises [OF q a o]
  have "technical_score
          (assessment (analyze_answer py0 default_settings world_partial state_pending))
          \<noteq> technical_score (assessment state_pending)"
    by (simp add: r t)
  then have "assessment (analyze_answer py0 default_settings world_partial state_pending)
          \<noteq> assessment state_pending"
    by auto
  with t n show ?thesis by (simp add: r)
qed


section \<open>The session log along a run\<close>

text \<open>The turn identifiers of a log are 1, 2, ... in order.\<close>

lemma coordinator_decision_log:
  assumes "coordinator_decision py cfg w s = Inr s'"
  shows "log_data s' = log_data s"
  using assms
  by (auto simp: coordinator_decision_def Let_def split: if_splits sum.splits)

lemma generate_question_log:
  assumes "generate_question py w s = Inr s'"
  shows "log_data s' = log_data s"
  using assms
  by (auto simp: generate_question_def Let_def split: if_splits sum.splits)

lemma get_user_answer_log: "log_data (get_user_answer py w s) = log_data s"
  by (simp add: get_user_answer_def Let_def)

lemma analyze_answer_ids:
  assumes "map turn_id (turns (log_data s)) = [1..int (length (turns (log_data s)))]"
  shows "map turn_id (turns (log_data (analyze_answer py cfg w s))) =
           [1..int (length (turns (log_data (analyze_answer py cfg w s))))]"
proof -
  have "log_data (analyze_answer py cfg w s) = log_data s \<or>
        (\<exists>q a t. log_data (analyze_answer py cfg w s) = add_turn (log_data s) q a t)"
    by (auto simp: analyze_answer_def split: option.splits sum.splits prod.splits)
  with assms add_turn_keeps_ids [OF assms] show ?thesis
    by auto
qed

lemma step_keeps_ids:
  assumes "step py cfg w (n, s) = Inr (n', s')"
    and "map turn_id (turns (log_data s)) = [1..int (length (turns (log_data s)))]"
  shows "map turn_id (turns (log_data s')) = [1..int (length (turns (log_data s')))]"
proof (cases n)
  case N_start_interview
  with assms show ?thesis by (auto simp: start_interview_def)
next
  case N_coordinator_decision
  with assms show ?thesis
    by (auto split: sum.splits dest: coordinator_decision_log)
next
  case N_generate_question
  with assms show ?thesis
    by (auto split: sum.splits dest: generate_question_log)
next
  case N_get_user_answer
  with assms show ?thesis by (auto simp: get_user_answer_log)
next
  case N_analyze_answer
  with assms analyze_answer_ids [OF assms(2), of py cfg w] show ?thesis by auto
qed (use assms in auto)

lemma run_steps_keeps_ids:
  assumes "run_steps py cfg ws (n, s) = Inr (n', s')"
    and "map turn_id (turns (log_data s)) = [1..int (length (turns (log_data s)))]"
  shows "map turn_id (turns (log_data s')) = [1..int (length (turns (log_data s')))]"
  using assms
proof (induction ws arbitrary: n s)
  case Nil
  then show ?case by simp
next
  case (Cons w ws)
  then show ?case
    by (auto split: sum.splits dest: step_keeps_ids)
qed

text \<open>
  Claim C9. Every append through \<open>add_turn\<close> gives the new turn the identifier one plus
  the number of turns already in the log and leaves the earlier turns as they are; so
  after N completed turns the identifiers in the written log are 1, 2, ..., N in order.
  The same holds for the log of every state a run of the workflow reaches from the
  initial state.
\<close>

theorem turn_ids_are_sequential:
  "turns (add_turn ld q a t) =
     turns ld @ [\<lparr>turn_id = int (length (turns ld)) + 1, agent_visible_message = q,
                  user_message = a, internal_thoughts = t\<rparr>] \<and>
   length (turns (add_turns (init_log_data c) xs)) = length xs \<and>
   map turn_id (fst (snd (output_data (add_turns (init_log_data c) xs)))) =
     [1..int (length xs)] \<and>
   (case run_steps py cfg ws (N_start_interview, initial_state cfg c k) of
      Inl e \<Rightarrow> True
    | Inr (n, s) \<Rightarrow>
        map turn_id (fst (snd (output_data (log_data s)))) =
          [1..int (length (turns (log_data s)))])"
proof -
  have i: "map turn_id (turns (init_log_data c)) = [1..int (length (turns (init_log_data c)))]"
    by (simp add: init_log_data_def)
  have r: "map turn_id (turns (log_data s)) = [1..int (length (turns (log_data s)))]"
    if "run_steps py cfg ws (N_start_interview, initial_state cfg c k) = Inr (n, s)" for n s
    by (rule run_steps_keeps_ids [OF that]) (simp add: initial_state_def init_log_data_def)
  from add_turns_keeps_ids [OF i, of xs] r show ?thesis
    by (auto simp: add_turn_turns add_turns_length output_data_def init_log_data_def
        split: sum.splits)
qed


section \<open>Properties of the stop path\<close>

lemma coordinator_decision_complete:
  assumes "interview_complete s"
  shows "coordinator_decision py cfg w s = Inr s"
  using assms by (simp add: coordinator_decision_def should_end_interview_def)

text \<open>
  The three steps after a stop word, \<open>u\<close> being the text \<open>get_user_answer\<close> compares
  with the stop tokens.
\<close>

lemma stop_path:
  assumes "py_lower py u \<in> set stop_words"
    and "u = (case input_line w1 of None \<Rightarrow> stop_word | Some line \<Rightarrow> py_strip py line)"
  shows "\<exists>s1 s2 s3.
     step py cfg w1 (N_get_user_answer, s) = Inr (N_analyze_answer, s1) \<and>
     step py cfg w2 (N_analyze_answer, s1) = Inr (N_coordinator_decision, s2) \<and>
     step py cfg w3 (N_coordinator_decision, s2) = Inr (N_generate_feedback, s3) \<and>
     interview_complete s3 \<and> questions_asked s3 = questions_asked s \<and>
     current_answer s1 = Some u \<and>
     (turns (log_data s3) = turns (log_data s) \<or>
      (\<exists>q t. current_question s = Some q \<and>
         turns (log_data s3) =
           turns (log_data s) @ [\<lparr>turn_id = int (length (turns (log_data s))) + 1,
              agent_visible_message = q, user_message = u, internal_thoughts = t\<rparr>]))"
proof -
  let ?s1 = "get_user_answer py w1 s"
  let ?s2 = "analyze_answer py cfg w2 ?s1"
  have g: "?s1 = s\<lparr>interview_complete := True, current_answer := Some u\<rparr>"
    using assms by (simp add: get_user_answer_def)
  have c2: "interview_complete ?s2"
    by (simp add: analyze_answer_keeps g)
  have q2: "questions_asked ?s2 = questions_asked s"
    by (simp add: analyze_answer_keeps g)
  have st3: "step py cfg w3 (N_coordinator_decision, ?s2) = Inr (N_generate_feedback, ?s2)"
    using c2 by (simp add: coordinator_decision_complete check_should_continue_def)
  have t: "turns (log_data ?s2) = turns (log_data s) \<or>
      (\<exists>q t. current_question s = Some q \<and>
         turns (log_data ?s2) =
           turns (log_data s) @ [\<lparr>turn_id = int (length (turns (log_data s))) + 1,
              agent_visible_message = q, user_message = u, internal_thoughts = t\<rparr>])"
    using analyze_answer_turns [of py cfg w2 ?s1] by (auto simp: g)
  show ?thesis
    using st3 c2 q2 t g by auto
qed

lemma state_awaiting_reachable:
  "run_steps py0 default_settings [world_down, world_down, world_down]
     (N_start_interview, initial_state default_settings scenario_candidate 1)
   = Inr (N_get_user_answer, state_awaiting)"
proof -
  let ?s0 = "start_interview (initial_state default_settings scenario_candidate 1)"
  let ?s1 = "?s0\<lparr>coordinator_instruction := JStr ask_next_question,
                   current_turn_thoughts :=
                     [str ''[Coordinator]: '' @ thought_decision @ continue @ thought_reasoning
                        @ reason_fallback @ str ''...'']\<rparr>"
  have f: "create_fallback_decision default_settings ?s0
             = Inr (fallback_decision ?s0 continue reason_fallback)"
    by (rule fallback_before_five)
       (simp_all add: start_interview_def initial_state_def default_settings_def)
  have d: "decide_next_step py0 default_settings (LLMContent not_json) ?s0
             = Inr (fallback_decision ?s0 continue reason_fallback)"
    using unparsable_reply_falls_back [OF not_json_cleaned, of default_settings ?s0] f
    by (simp add: py0_def)
  have e: "\<not> should_end_interview default_settings ?s0"
    by (simp add: should_end_interview_def start_interview_def initial_state_def
        default_settings_def)
  have c: "coordinator_decision py0 default_settings world_down ?s0 = Inr ?s1"
    using e d
    apply (simp add: coordinator_decision_def world_down_def)
    apply (simp add: fallback_decision_def dict_get_def str_def change_topic_def continue_def
        end_interview_def Let_def reason_fallback_def py0_def start_interview_def
        initial_state_def)
    done
  have k: "check_should_continue default_settings ?s1"
    by (simp add: check_should_continue_def start_interview_def initial_state_def
        default_settings_def)
  have g: "generate_question py0 world_down ?s1 = Inr state_awaiting"
    apply (simp add: generate_question_def interviewer_generate_question_def world_down_def
        get_fallback_question_def start_interview_def initial_state_def Let_def)
    apply (simp add: py0_def fallback_bank_def str_def key_databases_def ask_next_question_def
        state_awaiting_def initial_state_def first_question_def)
    done
  show ?thesis
    using c k g by simp
qed

lemma stop_is_stop_word:
  "py_strip py0 (str ''stop'') = str ''stop''"
  "py_lower py0 (str ''stop'') = str ''stop''"
  "str ''stop'' \<in> set stop_words"
  by (simp_all add: py0_def str_def is_space_def lower_cp_def stop_words_def)

lemma stop_turn_logged:
  "turns (log_data (analyze_answer py0 default_settings world_stop
      (get_user_answer py0 world_stop state_awaiting))) =
   [\<lparr>turn_id = 1, agent_visible_message = first_question, user_message = str ''stop'',
     internal_thoughts =
       py_strip py0 (turn_thoughts py0 (current_turn_thoughts state_awaiting)
         (fallback_analysis py0 (str ''stop'') \<lparr>confidence = 0.3, correct_info = []\<rparr>))\<rparr>]"
proof -
  have g: "get_user_answer py0 world_stop state_awaiting =
             state_awaiting\<lparr>interview_complete := True, current_answer := Some (str ''stop'')\<rparr>"
    by (simp add: get_user_answer_def world_stop_def world_down_def stop_is_stop_word)
  have q: "first_question \<noteq> []"
    by (simp add: first_question_def question_mark_def str_def)
  have s: "str ''stop'' \<noteq> []"
    by (simp add: str_def)
  have l: "length (str ''stop'') = 4"
    by (simp add: str_def)
  have f: "fallback_analysis py0 (str ''stop'') \<lparr>confidence = 0.3, correct_info = []\<rparr> =
        [(str ''technical_score'', JNum 1),
         (str ''completeness_score'', JNum 1),
         (str ''confidence_score'', JNum 2),
         (str ''communication_score'', JNum 3),
         (str ''has_errors'', JBool True),
         (str ''errors_list'', JList [JStr too_short_answer, JStr no_understanding]),
         (str ''is_evasive'', JBool True),
         (str ''depth_of_knowledge'', JStr (str ''shallow'')),
         (str ''recommendation_for_next_question'', JStr ask_simpler),
         (str ''suggested_correction'', JStr generic_correction)]"
    by (simp add: fallback_analysis_def py0_def str_def is_space_def Let_def)
  have u: "fst (update_assessment (assessment state_awaiting)
                  (fallback_analysis py0 (str ''stop'') \<lparr>confidence = 0.3, correct_info = []\<rparr>))
           = None"
    unfolding f
    by (simp add: update_assessment_def update_gaps_def score_of_def subscript_def dict_get_def
        str_def generic_correction_def Let_def)
  let ?s = "state_awaiting\<lparr>interview_complete := True, current_answer := Some (str ''stop'')\<rparr>"
  let ?f = "fallback_analysis py0 (str ''stop'') \<lparr>confidence = 0.3, correct_info = []\<rparr>"
  have o: "observer_analyze_answer py0 default_settings (observer_inputs world_stop) ?s
             first_question (str ''stop'')
           = (Inr ?f, snd (update_assessment (assessment state_awaiting) ?f))"
    using u
    by (cases "update_assessment (assessment state_awaiting) ?f")
       (simp add: observer_analyze_answer_def q s l world_stop_def world_down_def
          default_settings_def Let_def)
  have c: "current_question ?s = Some first_question" "current_answer ?s = Some (str ''stop'')"
    by (simp_all add: state_awaiting_def)
  have t: "turns (log_data state_awaiting) = []"
    by (simp add: state_awaiting_def initial_state_def init_log_data_def)
  show ?thesis
    unfolding g
    by (simp add: analyze_answer_def c o q s add_turn_turns t)
qed

text \<open>
  Claim C4, as amended. For every state and every line whose stripped, lower-cased
  text is one of the stop tokens, submitting it at the Awaiting Answer node sets the
  termination flag, and the machine reaches the Reporting node at the third step: the
  Evaluating node and the Routing node run first, and no further question is asked.
  The turns recorded before the stop stay in the log, unchanged and in order; the
  Evaluating node may append one turn after them, which records the stop word as the
  answer to the pending question.
\<close>

theorem stop_word_ends_interview:
  assumes "input_line w1 = Some line"
    and "py_lower py (py_strip py line) \<in> set stop_words"
  shows "\<exists>s1 s2 s3.
     step py cfg w1 (N_get_user_answer, s) = Inr (N_analyze_answer, s1) \<and>
     step py cfg w2 (N_analyze_answer, s1) = Inr (N_coordinator_decision, s2) \<and>
     step py cfg w3 (N_coordinator_decision, s2) = Inr (N_generate_feedback, s3) \<and>
     interview_complete s3 \<and> questions_asked s3 = questions_asked s \<and>
     (turns (log_data s3) = turns (log_data s) \<or>
      (\<exists>q t. current_question s = Some q \<and>
         turns (log_data s3) =
           turns (log_data s) @ [\<lparr>turn_id = int (length (turns (log_data s))) + 1,
              agent_visible_message = q, user_message = py_strip py line,
              internal_thoughts = t\<rparr>]))"
proof -
  have u: "py_strip py line =
             (case input_line w1 of None \<Rightarrow> stop_word | Some l \<Rightarrow> py_strip py l)"
    using assms(1) by simp
  from stop_path [OF assms(2) u, of cfg s w2 w3] show ?thesis
    by blast
qed

theorem stop_word_ends_interview_witness:
  "input_line world_stop = Some (str ''stop'') \<and>
   py_lower py0 (py_strip py0 (str ''stop'')) \<in> set stop_words \<and>
   (\<exists>s1 s2 s3.
     step py0 default_settings world_stop (N_get_user_answer, state_awaiting)
       = Inr (N_analyze_answer, s1) \<and>
     step py0 default_settings world_stop (N_analyze_answer, s1)
       = Inr (N_coordinator_decision, s2) \<and>
     step py0 default_settings world_stop (N_coordinator_decision, s2)
       = Inr (N_generate_feedback, s3) \<and>
     interview_complete s3 \<and> questions_asked s3 = questions_asked state_awaiting)"
proof -
  have i: "input_line world_stop = Some (str ''stop'')"
    by (simp add: world_stop_def)
  have m: "py_lower py0 (py_strip py0 (str ''stop'')) \<in> set stop_words"
    by (simp add: stop_is_stop_word)
  from stop_word_ends_interview [OF i m, of default_settings state_awaiting world_stop world_stop]
    i m
  show ?thesis by blast
qed

text \<open>
  The claim as stated fails where the session waits for its first answer, with
  nothing logged yet, and the candidate types \<open>stop\<close>: the step from the Awaiting Answer
  node leads to the Evaluating node, not to Reporting, and when Reporting is reached
  two steps later the log holds one turn, whose answer is the stop word.
\<close>

theorem stop_word_not_direct_to_reporting:
  "run_steps py0 default_settings [world_down, world_down, world_down]
     (N_start_interview, initial_state default_settings scenario_candidate 1)
     = Inr (N_get_user_answer, state_awaiting) \<and>
   turns (log_data state_awaiting) = [] \<and>
   \<not> (\<exists>s'. step py0 default_settings world_stop (N_get_user_answer, state_awaiting)
             = Inr (N_generate_feedback, s')) \<and>
   (\<exists>s3. run_steps py0 default_settings [world_stop, world_stop, world_stop]
            (N_get_user_answer, state_awaiting) = Inr (N_generate_feedback, s3) \<and>
         map user_message (turns (log_data s3)) = [str ''stop''])"
proof -
  let ?s1 = "get_user_answer py0 world_stop state_awaiting"
  let ?s2 = "analyze_answer py0 default_settings world_stop ?s1"
  have t: "turns (log_data state_awaiting) = []"
    by (simp add: state_awaiting_def initial_state_def init_log_data_def)
  have g: "?s1 = state_awaiting\<lparr>interview_complete := True,
                                 current_answer := Some (str ''stop'')\<rparr>"
    by (simp add: get_user_answer_def world_stop_def world_down_def stop_is_stop_word)
  have c: "interview_complete ?s2"
    by (simp add: analyze_answer_keeps g)
  have r: "run_steps py0 default_settings [world_stop, world_stop, world_stop]
             (N_get_user_answer, state_awaiting) = Inr (N_generate_feedback, ?s2)"
    using c by (simp add: coordinator_decision_complete check_should_continue_def)
  have m: "map user_message (turns (log_data ?s2)) = [str ''stop'']"
    by (simp add: stop_turn_logged)
  show ?thesis
    using state_awaiting_reachable t r m by simp
qed

text \<open>
  Claim C10. When the answer source is exhausted, \<open>get_user_answer\<close> does what it does
  for the answer consisting of the stop word: it sets the termination flag and
  stores the stop word as the current answer; and the session goes on to the
  Reporting node without an error. The stop word is a lower-case word without
  surrounding white space, which \<open>strip\<close> and \<open>lower\<close> leave as it is.
\<close>

theorem end_of_input_acts_as_stop_word:
  assumes "py_strip py stop_word = stop_word" and "py_lower py stop_word = stop_word"
  shows "get_user_answer py (w\<lparr>input_line := None\<rparr>) s
           = get_user_answer py (w\<lparr>input_line := Some stop_word\<rparr>) s \<and>
         interview_complete (get_user_answer py (w\<lparr>input_line := None\<rparr>) s) \<and>
         current_answer (get_user_answer py (w\<lparr>input_line := None\<rparr>) s) = Some stop_word \<and>
         (\<exists>s1 s2 s3.
            step py cfg (w\<lparr>input_line := None\<rparr>) (N_get_user_answer, s)
              = Inr (N_analyze_answer, s1) \<and>
            step py cfg w2 (N_analyze_answer, s1) = Inr (N_coordinator_decision, s2) \<and>
            step py cfg w3 (N_coordinator_decision, s2) = Inr (N_generate_feedback, s3) \<and>
            interview_complete s3)"
proof -
  have m: "py_lower py stop_word \<in> set stop_words"
    using assms(2) by (simp add: stop_words_def)
  have u: "stop_word =
             (case input_line (w\<lparr>input_line := None\<rparr>) of
                None \<Rightarrow> stop_word
              | Some l \<Rightarrow> py_strip py l)"
    by simp
  have g: "get_user_answer py (w\<lparr>input_line := None\<rparr>) s
             = s\<lparr>interview_complete := True, current_answer := Some stop_word\<rparr>"
    using m by (simp add: get_user_answer_def)
  have g': "get_user_answer py (w\<lparr>input_line := Some stop_word\<rparr>) s
             = s\<lparr>interview_complete := True, current_answer := Some stop_word\<rparr>"
    using m assms(1) by (simp add: get_user_answer_def)
  from stop_path [OF m u, of cfg s w2 w3] g g' show ?thesis
    by auto
qed

theorem end_of_input_acts_as_stop_word_witness:
  "py_strip py0 stop_word = stop_word \<and> py_lower py0 stop_word = stop_word \<and>
   get_user_answer py0 (world_down\<lparr>input_line := None\<rparr>) state_awaiting
     = get_user_answer py0 (world_down\<lparr>input_line := Some stop_word\<rparr>) state_awaiting \<and>
   interview_complete (get_user_answer py0 (world_down\<lparr>input_line := None\<rparr>) state_awaiting) \<and>
   current_answer (get_user_answer py0 (world_down\<lparr>input_line := None\<rparr>) state_awaiting)
     = Some stop_word"
proof -
  have a: "py_strip py0 stop_word = stop_word"
    and b: "py_lower py0 stop_word = stop_word"
    by (simp_all add: py0_def stop_word_def is_space_def lower_cp_def)
  from end_of_input_acts_as_stop_word
         [OF a b, of world_down state_awaiting default_settings world_down world_down] a b
  show ?thesis by blast
qed


section \<open>Properties of the Interviewer\<close>















text \<open>
  The regenerated alternative is returned without the check for the question mark
  that the first reply gets: when the first reply repeats the asked question and the
  second reply is a statement, the statement is the question.
\<close>

lemma regenerated_question_may_lack_mark:
  "interviewer_generate_question py0 (LLMContent first_question) (LLMContent statement_reply)
     state_awaiting = Inr statement_reply \<and>
   \<not> endswith statement_reply question_mark"
  by (simp add: interviewer_generate_question_def generate_alternative_question_def Let_def
      question_prefixes_def prefix_vopros_def prefix_interviewer_def py0_def is_space_def
      endswith_def question_mark_def str_def state_awaiting_def first_question_def
      template_head_def statement_reply_def)


section \<open>Properties of the Reporter's level\<close>

text \<open>
  Claim C6, as amended. The candidate level is a lookup on the declared grade, in
  lower case, and the technical score. For \<open>junior\<close>: a score of at least 7 gives
  "Middle-ready Junior", a score below 7 gives "Junior". For \<open>middle\<close>: at least 8 gives
  "Senior-ready Middle", from 6 up to 8 "Middle", below 6 "Junior+". For every other
  grade, \<open>senior\<close> among them: at least 9 gives "Senior", from 7 up to 9 "Middle+", and
  below 7 the Russian label the specification renders as "Under review".
\<close>

theorem level_is_lookup_on_grade_and_score:
  "(py_lower py (grade c) = str ''junior'' \<longrightarrow>
      (7 \<le> technical_score a \<longrightarrow> determine_level py a c = str ''Middle-ready Junior'') \<and>
      (technical_score a < 7 \<longrightarrow> determine_level py a c = str ''Junior'')) \<and>
   (py_lower py (grade c) = str ''middle'' \<longrightarrow>
      (8 \<le> technical_score a \<longrightarrow> determine_level py a c = str ''Senior-ready Middle'') \<and>
      (6 \<le> technical_score a \<and> technical_score a < 8 \<longrightarrow>
         determine_level py a c = str ''Middle'') \<and>
      (technical_score a < 6 \<longrightarrow> determine_level py a c = str ''Junior+'')) \<and>
   (py_lower py (grade c) \<noteq> str ''junior'' \<and> py_lower py (grade c) \<noteq> str ''middle'' \<longrightarrow>
      (9 \<le> technical_score a \<longrightarrow> determine_level py a c = str ''Senior'') \<and>
      (7 \<le> technical_score a \<and> technical_score a < 9 \<longrightarrow>
         determine_level py a c = str ''Middle+'') \<and>
      (technical_score a < 7 \<longrightarrow> determine_level py a c = level_under_question))"
  by (auto simp: determine_level_def Let_def str_def)

theorem level_is_lookup_on_grade_and_score_witness:
  "py_lower py0 (grade junior_candidate) = str ''junior'' \<and>
   technical_score assessment_six_and_half < 7 \<and>
   determine_level py0 assessment_six_and_half junior_candidate = str ''Junior'' \<and>
   py_lower py0 (grade scenario_candidate) = str ''middle'' \<and>
   6 \<le> technical_score assessment_six_and_half \<and>
   technical_score assessment_six_and_half < 8 \<and>
   determine_level py0 assessment_six_and_half scenario_candidate = str ''Middle''"
proof -
  have j: "py_lower py0 (grade junior_candidate) = str ''junior''"
    and m: "py_lower py0 (grade scenario_candidate) = str ''middle''"
    by (simp_all add: py0_def junior_candidate_def scenario_candidate_def str_def lower_cp_def)
  have s: "technical_score assessment_six_and_half = 6.5"
    by (simp add: assessment_six_and_half_def)
  from level_is_lookup_on_grade_and_score [of py0 junior_candidate assessment_six_and_half]
       level_is_lookup_on_grade_and_score [of py0 scenario_candidate assessment_six_and_half]
       j m s
  show ?thesis by simp
qed

text \<open>
  The claim as stated fails for a junior candidate with a technical score of 6.5: the
  claim gives "Middle-ready Junior" for every score from 6 up to 7, the code gives
  "Junior".
\<close>

theorem junior_below_seven_is_junior:
  "py_lower py0 (grade junior_candidate) = str ''junior'' \<and>
   6 \<le> technical_score assessment_six_and_half \<and>
   technical_score assessment_six_and_half < 7 \<and>
   determine_level py0 assessment_six_and_half junior_candidate = str ''Junior'' \<and>
   determine_level py0 assessment_six_and_half junior_candidate \<noteq> str ''Middle-ready Junior''"
  by (simp add: determine_level_def Let_def py0_def junior_candidate_def scenario_candidate_def
      assessment_six_and_half_def str_def lower_cp_def)

end
